theory Spec2Isabelle
  imports Main "HOL-Library.Sublist"
begin

section \<open>JavaScript strings\<close>

text \<open>
  A JavaScript string is a sequence of code units. It is modelled as a \<open>string\<close>, one
  \<open>char\<close> per code unit (code units below 256). The helpers below are the string methods
  the translator calls.
\<close>

text \<open>The white space and line terminators that \<^verbatim>\<open>String.prototype.trim\<close> removes,
  in the range of \<open>char\<close>: TAB, LF, VT, FF, CR, SP and NBSP.\<close>

definition isWhiteSpace :: "char \<Rightarrow> bool" where
  "isWhiteSpace c = (of_char c \<in> {9, 10, 11, 12, 13, 32, 160 :: nat})"

definition trim :: "string \<Rightarrow> string" where
  "trim s = rev (dropWhile isWhiteSpace (rev (dropWhile isWhiteSpace s)))"

text \<open>\<^verbatim>\<open>s.substring(start, finish)\<close>: both indices are clamped to the string and swapped
  when they come in the wrong order.\<close>

definition substring :: "string \<Rightarrow> int \<Rightarrow> int \<Rightarrow> string" where
  "substring s start finish =
     (let n = int (length s);
          a = max 0 (min start n);
          b = max 0 (min finish n);
          lo = min a b;
          hi = max a b
      in take (nat (hi - lo)) (drop (nat lo) s))"

definition startsWith :: "string \<Rightarrow> string \<Rightarrow> bool" where
  "startsWith s p = (take (length p) s = p)"

definition endsWith :: "string \<Rightarrow> string \<Rightarrow> bool" where
  "endsWith s p = (length p \<le> length s \<and> drop (length s - length p) s = p)"

text \<open>\<^verbatim>\<open>s.replace(/ab/g, r)\<close> for a pattern of two literal characters: the scan goes left
  to right, a match is replaced and the scan goes on behind it.\<close>

fun replaceAll2 :: "char \<Rightarrow> char \<Rightarrow> string \<Rightarrow> string \<Rightarrow> string" where
  "replaceAll2 a b r (x # y # zs) =
     (if x = a \<and> y = b then r @ replaceAll2 a b r zs else x # replaceAll2 a b r (y # zs))"
| "replaceAll2 a b r xs = xs"

text \<open>\<^verbatim>\<open>s.replace(/c/, r)\<close>, a regular expression without the \<^verbatim>\<open>g\<close> flag: only the
  first match is replaced.\<close>

fun replaceFirst :: "char \<Rightarrow> string \<Rightarrow> string \<Rightarrow> string" where
  "replaceFirst c r [] = []"
| "replaceFirst c r (x # xs) = (if x = c then r @ xs else x # replaceFirst c r xs)"

text \<open>The character class \<^verbatim>\<open>[A-Za-z]\<close>.\<close>

definition isAsciiLetter :: "char \<Rightarrow> bool" where
  "isAsciiLetter c =
     (let n = (of_char c :: nat) in (65 \<le> n \<and> n \<le> 90) \<or> (97 \<le> n \<and> n \<le> 122))"

definition isAsciiDigit :: "char \<Rightarrow> bool" where
  "isAsciiDigit c = (let n = (of_char c :: nat) in 48 \<le> n \<and> n \<le> 57)"

text \<open>\<^verbatim>\<open>parts.join(sep)\<close>.\<close>

fun join :: "string \<Rightarrow> string list \<Rightarrow> string" where
  "join sep [] = []"
| "join sep [x] = x"
| "join sep (x # y # ys) = x @ sep @ join sep (y # ys)"

section \<open>transformer\_util.ts\<close>

datatype commentKind = SingleLineCommentTrivia | MultiLineCommentTrivia

record commentRange =
  kind :: commentKind
  pos :: int
  endPos :: int
  hasTrailingNewLine :: "bool option"

record synthesizedComment = commentRange +
  commentText :: string

text \<open>\<^verbatim>\<open>commentText.replace(/(^\/\*)|(\*\/$)/g, '')\<close>: the first alternative matches
  only at index 0, the second only at the end of the string and behind an earlier match.\<close>

definition stripMultiLineDelimiters :: "string \<Rightarrow> string" where
  "stripMultiLineDelimiters s =
     (let s1 = (if startsWith s ''/*'' then drop 2 s else s)
      in if endsWith s1 ''*/'' then take (length s1 - 2) s1 else s1)"

text \<open>\<^verbatim>\<open>commentText.replace(/(^\/\/)/g, '')\<close>.\<close>

definition stripSingleLineDelimiter :: "string \<Rightarrow> string" where
  "stripSingleLineDelimiter s = (if startsWith s ''//'' then drop 2 s else s)"

text \<open>The body of the \<^verbatim>\<open>forEach\<close> callback of \<^verbatim>\<open>synthesizeCommentRanges\<close>, with
  the array \<^verbatim>\<open>synthesizedComments\<close> passed along; the early \<^verbatim>\<open>return\<close> for a
  triple-slash comment leaves the array as it is.\<close>

fun forEachParsedComment ::
  "string \<Rightarrow> commentRange list \<Rightarrow> synthesizedComment list \<Rightarrow> synthesizedComment list" where
  "forEachParsedComment sourceText [] synthesizedComments = synthesizedComments"
| "forEachParsedComment sourceText (c # cs) synthesizedComments =
     (let commentText0 = trim (substring sourceText (pos c) (endPos c)) in
      case kind c of
        MultiLineCommentTrivia \<Rightarrow>
          forEachParsedComment sourceText cs
            (synthesizedComments @
              [\<lparr>kind = kind c, pos = -1, endPos = -1,
                hasTrailingNewLine = hasTrailingNewLine c,
                commentText = stripMultiLineDelimiters commentText0\<rparr>])
      | SingleLineCommentTrivia \<Rightarrow>
          if startsWith commentText0 ''///'' then
            forEachParsedComment sourceText cs synthesizedComments
          else
            forEachParsedComment sourceText cs
              (synthesizedComments @
                [\<lparr>kind = kind c, pos = -1, endPos = -1,
                  hasTrailingNewLine = hasTrailingNewLine c,
                  commentText = stripSingleLineDelimiter commentText0\<rparr>]))"

definition synthesizeCommentRanges :: "string \<Rightarrow> commentRange list \<Rightarrow> synthesizedComment list" where
  "synthesizeCommentRanges sourceText parsedComments =
     forEachParsedComment sourceText parsedComments []"

text \<open>The specification's reading of the same function: which ranges are left out, and what the
  others become.\<close>

definition isTripleSlash :: "string \<Rightarrow> commentRange \<Rightarrow> bool" where
  "isTripleSlash sourceText c =
     (kind c = SingleLineCommentTrivia \<and>
      startsWith (trim (substring sourceText (pos c) (endPos c))) ''///'')"

definition synthesized :: "string \<Rightarrow> commentRange \<Rightarrow> synthesizedComment" where
  "synthesized sourceText c =
     \<lparr>kind = kind c, pos = -1, endPos = -1, hasTrailingNewLine = hasTrailingNewLine c,
      commentText =
        (case kind c of
           MultiLineCommentTrivia \<Rightarrow>
             stripMultiLineDelimiters (trim (substring sourceText (pos c) (endPos c)))
         | SingleLineCommentTrivia \<Rightarrow>
             stripSingleLineDelimiter (trim (substring sourceText (pos c) (endPos c))))\<rparr>"

section \<open>jsdoc\_transformer.ts: comment escaping\<close>

text \<open>\<^verbatim>\<open>str.replace(/\/\*/g, '__').replace(/\*\//g, '__')\<close>\<close>

definition escapeForComment :: "string \<Rightarrow> string" where
  "escapeForComment str =
     replaceAll2 (CHR ''*'') (CHR ''/'') ''__'' (replaceAll2 (CHR ''/'') (CHR ''*'') ''__'' str)"

text \<open>Whether the two characters \<open>a\<close>, \<open>b\<close> stand next to each other somewhere in a
  string.\<close>

fun hasPair :: "char \<Rightarrow> char \<Rightarrow> string \<Rightarrow> bool" where
  "hasPair a b (x # y # zs) = ((x = a \<and> y = b) \<or> hasPair a b (y # zs))"
| "hasPair a b xs = False"

section \<open>The syntax tree and the type checker\<close>

text \<open>
  Nodes carry a number that stands for their identity; the type checker and the type
  translator, which are outside this file, are functions from such numbers and from symbols.
\<close>

datatype modifierFlag =
  Export | Ambient | Public | Private | Protected | Static | Readonly | Abstract | Async
  | Default | Const

record tsNode =
  nodeId :: nat
  modifierFlags :: "modifierFlag set"
  parentModifierFlags :: "modifierFlag set list"
  getText :: string

text \<open>Modelled from the spec: \<^verbatim>\<open>hasModifierFlag\<close> of util.ts is not in the sources; it
  tests the modifier flags of a node against a mask (the spec's "modifier" inspection).\<close>

definition hasModifierFlag :: "'a tsNode_scheme \<Rightarrow> modifierFlag set \<Rightarrow> bool" where
  "hasModifierFlag n flagSet = (modifierFlags n \<inter> flagSet \<noteq> {})"

text \<open>\<^verbatim>\<open>isAmbient\<close>: the loop over \<^verbatim>\<open>current\<close>, \<^verbatim>\<open>current.parent\<close>, ... as a
  recursion over the modifier flags of the node and of its ancestors.\<close>

fun ambientOnPath :: "modifierFlag set list \<Rightarrow> bool" where
  "ambientOnPath [] = False"
| "ambientOnPath (current # parents) =
     (if current \<inter> {Ambient} \<noteq> {} then True else ambientOnPath parents)"

definition isAmbient :: "'a tsNode_scheme \<Rightarrow> bool" where
  "isAmbient n = ambientOnPath (modifierFlags n # parentModifierFlags n)"

text \<open>A function declaration as the externs generator reads it: its node, the node and
  the text of its name, and for each parameter and for the result the name and the type
  string the type translator gives.\<close>

record signatureDeclaration =
  fnNodeId :: nat
  fnName :: "(nat \<times> string) option"
  fnParameters :: "(string \<times> string) list"
  fnReturnType :: string

text \<open>A declaration of a symbol: a function declaration, or a node of another kind.\<close>

datatype declarationNode =
  FunctionDeclaration signatureDeclaration
  | OtherDeclaration nat

text \<open>A symbol of the type checker, with its declarations. The four flags are the results of the mask tests
  \<^verbatim>\<open>sym.flags & ts.SymbolFlags.TypeAlias\<close>, \<^verbatim>\<open>.Alias\<close>, \<^verbatim>\<open>.Class\<close> and \<^verbatim>\<open>.Value\<close>.\<close>

record symbol =
  symbolName :: string
  flagsTypeAlias :: bool
  flagsAlias :: bool
  flagsClass :: bool
  flagsValue :: bool
  symbolDeclarations :: "declarationNode list option"

record typeChecker =
  getSymbolAtLocation :: "nat \<Rightarrow> symbol option"
  getDeclaredTypeOfSymbol :: "symbol \<Rightarrow> symbol option"
  getAliasedSymbol :: "symbol \<Rightarrow> symbol"

record annotatorHost =
  logWarning :: bool
  untyped :: bool

datatype diagnosticCategory = Warning | Error

record diagnostic =
  contextNode :: nat
  messageText :: string
  category :: diagnosticCategory

text \<open>What a transformation leaves behind besides its result: the warnings handed to
  \<^verbatim>\<open>host.logWarning\<close> and the diagnostics of the file.\<close>

record transformerState =
  loggedWarnings :: "diagnostic list"
  diagnostics :: "diagnostic list"

record tag =
  tagName :: string
  parameterName :: "string option"
  type :: "string option"
  tagText :: "string option"

definition mkTag :: "string \<Rightarrow> tag" where
  "mkTag n = \<lparr>tagName = n, parameterName = None, type = None, tagText = None\<rparr>"

text \<open>The module type translator, as far as the transformer calls it. Its file is not in
  the sources: the results of its calls are fields. \<^verbatim>\<open>isBlackListedSymbol\<close> and
  \<^verbatim>\<open>symbolToString\<close> are the methods of the type translator made for a context node;
  \<^verbatim>\<open>translate\<close> is the type string of a node whose type is neither black-listed nor
  suppressed by the host.\<close>

record moduleTypeTranslator =
  checker :: typeChecker
  host :: annotatorHost
  isBlackListedSymbol :: "nat \<Rightarrow> symbol \<Rightarrow> bool"
  symbolToString :: "nat \<Rightarrow> symbol \<Rightarrow> bool \<Rightarrow> string"
  isBlackListed :: "nat \<Rightarrow> bool"
  translate :: "nat \<Rightarrow> string"
  getJSDoc :: "nat \<Rightarrow> tag list"
  getFunctionTypeJSDoc :: "nat list \<Rightarrow> tag list \<times> string list"
  hasExportingDecorator :: "nat \<Rightarrow> bool"

text \<open>Modelled from the spec: \<^verbatim>\<open>typeToClosure\<close> of the module type translator is not in
  the sources. "If untyped mode is set on the host, every call returns ?"; a black-listed
  type renders as ? ("blacklist propagation").\<close>

definition typeToClosure :: "moduleTypeTranslator \<Rightarrow> nat \<Rightarrow> string" where
  "typeToClosure mtt n =
     (if untyped (host mtt) then ''?''
      else if isBlackListed mtt n then ''?''
      else translate mtt n)"

text \<open>\<^verbatim>\<open>transformerUtil.debugWarn\<close>: without a \<^verbatim>\<open>logWarning\<close> callback nothing happens.\<close>

definition debugWarn ::
  "annotatorHost \<Rightarrow> nat \<Rightarrow> string \<Rightarrow> transformerState \<Rightarrow> transformerState" where
  "debugWarn h context msg st =
     (if \<not> logWarning h then st
      else st\<lparr>loggedWarnings := loggedWarnings st @
             [\<lparr>contextNode = context, messageText = msg, category = Warning\<rparr>]\<rparr>)"

text \<open>Modelled from the spec: the methods \<^verbatim>\<open>debugWarn\<close> and \<^verbatim>\<open>error\<close> of the module type
  translator are not in the sources. "error(node, message) appends a fatal diagnostic;
  debugWarn(node, message) appends a non-actionable warning iff the host accepts warnings."\<close>

definition mttDebugWarn ::
  "moduleTypeTranslator \<Rightarrow> nat \<Rightarrow> string \<Rightarrow> transformerState \<Rightarrow> transformerState" where
  "mttDebugWarn mtt context msg st = debugWarn (host mtt) context msg st"

definition mttError ::
  "moduleTypeTranslator \<Rightarrow> nat \<Rightarrow> string \<Rightarrow> transformerState \<Rightarrow> transformerState" where
  "mttError mtt context msg st =
     st\<lparr>diagnostics := diagnostics st @
          [\<lparr>contextNode = context, messageText = msg, category = Error\<rparr>]\<rparr>"

subsection \<open>Declarations\<close>

datatype declarationName =
  Identifier nat string
  | StringLiteral nat string
  | ComputedPropertyName nat string
  | BindingPattern nat string

record namedDeclaration = tsNode +
  name :: "declarationName option"
  questionToken :: bool

datatype elementSyntaxKind =
  Constructor | PropertyDeclaration | PropertySignature | MethodDeclaration | MethodSignature
  | GetAccessor | SetAccessor | IndexSignature | CallSignature | ConstructSignature

record classElement = namedDeclaration +
  elementKind :: elementSyntaxKind
  parameters :: "namedDeclaration list"

datatype heritageToken = ExtendsKeyword | ImplementsKeyword

record expressionWithTypeArguments =
  expression :: nat
  expressionText :: string

record heritageClause =
  token :: heritageToken
  types :: "expressionWithTypeArguments list option"

datatype declarationSyntaxKind = ClassDeclaration | ClassExpression | InterfaceDeclaration

text \<open>A class or an interface declaration. Its name, when it has one, is an identifier;
  an interface declaration always has a name.\<close>

record typeDeclaration = namedDeclaration +
  declarationKind :: declarationSyntaxKind
  typeParameters :: "string list option"
  heritageClauses :: "heritageClause list option"
  members :: "classElement list"

text \<open>A variable declaration after \<^verbatim>\<open>ts.visitNode\<close>; \<^verbatim>\<open>originalNode\<close> is the node
  \<^verbatim>\<open>ts.getOriginalNode\<close> gives. The name is an identifier or a binding pattern.\<close>

record variableDeclaration = namedDeclaration +
  initializer :: "nat option"
  originalNode :: nat

text \<open>A variable statement, with its synthetic leading comments, the node flags of its
  declaration list and the declarations of the visited list.\<close>

record variableStatement = tsNode +
  syntheticLeadingComments :: "synthesizedComment list option"
  declarationListFlags :: nat
  declarations :: "variableDeclaration list"

subsection \<open>The statements the transformer creates\<close>

text \<open>A synthesized comment is either made from tags by \<^verbatim>\<open>jsdoc.toSynthesizedComment\<close>
  (the flag tells whether \<^verbatim>\<open>TAGS_CONFLICTING_WITH_TYPE\<close> was passed as the tags to escape)
  or a comment with a given text. The serializer is outside this file, so the tags are kept
  as they are passed.\<close>

datatype comment =
  JSDocComment "tag list" bool
  | TextComment synthesizedComment

datatype expr =
  IdentifierExpr string
  | PropertyAccessExpr expr string
  | FalseLiteral
  | AssignmentExpr expr expr
  | FunctionExpr "string list"

datatype statement =
  ExpressionStatement "comment list" expr
  | FunctionDeclarationStatement "comment list" "modifierFlag list" string "string list"
      "statement list"
  | IfStatement expr "statement list"
  | NotEmittedStatement "comment list" "comment list"
  | VariableStatement "comment list" "modifierFlag set" nat variableDeclaration

text \<open>\<^verbatim>\<open>createSingleLineComment\<close> and \<^verbatim>\<open>createMultiLineComment\<close> of transformer\_util.ts:
  a statement that is not emitted, with one trailing comment.\<close>

definition createSingleLineComment :: "string \<Rightarrow> statement" where
  "createSingleLineComment txt =
     NotEmittedStatement []
       [TextComment \<lparr>kind = SingleLineCommentTrivia, pos = -1, endPos = -1,
          hasTrailingNewLine = Some True, commentText = '' '' @ txt\<rparr>]"

definition createMultiLineComment :: "string \<Rightarrow> statement" where
  "createMultiLineComment txt =
     NotEmittedStatement []
       [TextComment \<lparr>kind = MultiLineCommentTrivia, pos = -1, endPos = -1,
          hasTrailingNewLine = Some True, commentText = '' '' @ txt\<rparr>]"

section \<open>jsdoc\_transformer.ts: heritage clauses\<close>

text \<open>\<^verbatim>\<open>maybeAddTemplateClause\<close>: \<^verbatim>\<open>docTags.push\<close> is written as the new array.\<close>

definition maybeAddTemplateClause :: "tag list \<Rightarrow> typeDeclaration \<Rightarrow> tag list" where
  "maybeAddTemplateClause docTags decl =
     (case typeParameters decl of
        None \<Rightarrow> docTags
      | Some tps \<Rightarrow> docTags @ [(mkTag ''template'')\<lparr>tagText := Some (join '', '' tps)\<rparr>])"

text \<open>The body of the inner loop of \<^verbatim>\<open>maybeAddHeritageClauses\<close>, for one heritage type
  \<^verbatim>\<open>impl\<close> of the clause \<^verbatim>\<open>heritage\<close>; every \<^verbatim>\<open>continue\<close> returns the tags and the state
  as they are.\<close>

definition heritageType ::
  "moduleTypeTranslator \<Rightarrow> typeDeclaration \<Rightarrow> bool \<Rightarrow> heritageClause \<Rightarrow>
   expressionWithTypeArguments \<Rightarrow> tag list \<times> transformerState \<Rightarrow> tag list \<times> transformerState" where
  "heritageType mtt decl classHasSuperClass heritage impl acc =
     (let docTags = fst acc; st = snd acc;
          isClass = (declarationKind decl = ClassDeclaration);
          tagName0 =
            (if declarationKind decl = InterfaceDeclaration then ''extends'' else ''implements'')
      in case getSymbolAtLocation (checker mtt) (expression impl) of
           None \<Rightarrow>
             (docTags @
                [(mkTag '''')\<lparr>tagText := Some (''NOTE: tsickle could not resolve supertype, '' @
                    ''class definition may be incomplete.'' @ [CHR 0x0A])\<rparr>],
              mttDebugWarn mtt (nodeId decl)
                (''could not resolve supertype: '' @ expressionText impl) st)
         | Some symb \<Rightarrow>
             (case (if flagsTypeAlias symb then getDeclaredTypeOfSymbol (checker mtt) symb
                    else Some symb) of
                None \<Rightarrow> (docTags, st)
              | Some alias0 \<Rightarrow>
                  (let alias =
                         (if flagsAlias alias0 then getAliasedSymbol (checker mtt) alias0
                          else alias0)
                   in if isBlackListedSymbol mtt (expression impl) alias then (docTags, st)
                      else if flagsClass alias then
                        (if \<not> isClass then (docTags, st)
                         else if classHasSuperClass \<and> token heritage \<noteq> ExtendsKeyword
                           then (docTags, st)
                         else (docTags @
                                 [(mkTag ''extends'')\<lparr>type :=
                                     Some (symbolToString mtt (expression impl) alias True)\<rparr>],
                               st))
                      else if flagsValue alias then (docTags, st)
                      else (docTags @
                              [(mkTag tagName0)\<lparr>type :=
                                  Some (symbolToString mtt (expression impl) alias True)\<rparr>],
                            st))))"

text \<open>The body of the outer loop, for one heritage clause.\<close>

definition heritageClauseStep ::
  "moduleTypeTranslator \<Rightarrow> typeDeclaration \<Rightarrow> bool \<Rightarrow> heritageClause \<Rightarrow>
   tag list \<times> transformerState \<Rightarrow> tag list \<times> transformerState" where
  "heritageClauseStep mtt decl classHasSuperClass heritage acc =
     (case types heritage of
        None \<Rightarrow> acc
      | Some impls \<Rightarrow>
          if declarationKind decl = ClassDeclaration \<and> token heritage \<noteq> ImplementsKeyword
             \<and> \<not> isAmbient decl
          then acc
          else fold (heritageType mtt decl classHasSuperClass heritage) impls acc)"

definition maybeAddHeritageClauses ::
  "tag list \<Rightarrow> moduleTypeTranslator \<Rightarrow> typeDeclaration \<Rightarrow> transformerState \<Rightarrow>
   tag list \<times> transformerState" where
  "maybeAddHeritageClauses docTags mtt decl st =
     (case heritageClauses decl of
        None \<Rightarrow> (docTags, st)
      | Some clauses \<Rightarrow>
          (let isClass = (declarationKind decl = ClassDeclaration);
               classHasSuperClass =
                 (isClass \<and> list_ex (\<lambda>hc. token hc = ExtendsKeyword) clauses)
           in fold (heritageClauseStep mtt decl classHasSuperClass) clauses (docTags, st)))"

text \<open>The symbol a heritage type resolves to, as the loop body finds it: the symbol at the
  expression, through a type alias to the symbol of the declared type, through an alias to
  the aliased symbol.\<close>

definition resolvedHeritageSymbol ::
  "moduleTypeTranslator \<Rightarrow> expressionWithTypeArguments \<Rightarrow> symbol option" where
  "resolvedHeritageSymbol mtt impl =
     (case getSymbolAtLocation (checker mtt) (expression impl) of
        None \<Rightarrow> None
      | Some symb \<Rightarrow>
          (case (if flagsTypeAlias symb then getDeclaredTypeOfSymbol (checker mtt) symb
                 else Some symb) of
             None \<Rightarrow> None
           | Some alias0 \<Rightarrow>
               Some (if flagsAlias alias0 then getAliasedSymbol (checker mtt) alias0
                     else alias0)))"

text \<open>\<^verbatim>\<open>classHasSuperClass\<close> as \<^verbatim>\<open>maybeAddHeritageClauses\<close> computes it for a declaration.\<close>

definition classHasSuperClass :: "typeDeclaration \<Rightarrow> bool" where
  "classHasSuperClass decl =
     (case heritageClauses decl of
        None \<Rightarrow> False
      | Some clauses \<Rightarrow>
          declarationKind decl = ClassDeclaration \<and>
          list_ex (\<lambda>hc. token hc = ExtendsKeyword) clauses)"

subsection \<open>An example: classes B and D, interface I\<close>

definition exampleClassSymbol :: "string \<Rightarrow> symbol" where
  "exampleClassSymbol n =
     \<lparr>symbolName = n, flagsTypeAlias = False, flagsAlias = False, flagsClass = True,
      flagsValue = True, symbolDeclarations = None\<rparr>"

definition exampleInterfaceSymbol :: "string \<Rightarrow> symbol" where
  "exampleInterfaceSymbol n =
     \<lparr>symbolName = n, flagsTypeAlias = False, flagsAlias = False, flagsClass = False,
      flagsValue = False, symbolDeclarations = None\<rparr>"

text \<open>Node 1 is the expression \<^verbatim>\<open>B\<close>, node 2 is \<^verbatim>\<open>D\<close>, node 3 is \<^verbatim>\<open>I\<close>.\<close>

definition exampleChecker :: typeChecker where
  "exampleChecker =
     \<lparr>getSymbolAtLocation =
        (\<lambda>n. if n = 1 then Some (exampleClassSymbol ''B'')
             else if n = 2 then Some (exampleClassSymbol ''D'')
             else if n = 3 then Some (exampleInterfaceSymbol ''I'')
             else None),
      getDeclaredTypeOfSymbol = (\<lambda>s. None),
      getAliasedSymbol = (\<lambda>s. s)\<rparr>"

definition exampleTranslator :: "bool \<Rightarrow> moduleTypeTranslator" where
  "exampleTranslator withLogWarning =
     \<lparr>checker = exampleChecker,
      host = \<lparr>logWarning = withLogWarning, untyped = False\<rparr>,
      isBlackListedSymbol = (\<lambda>n s. False),
      symbolToString = (\<lambda>n s useFqn. symbolName s),
      isBlackListed = (\<lambda>n. False),
      translate = (\<lambda>n. ''number''),
      getJSDoc = (\<lambda>n. []),
      getFunctionTypeJSDoc = (\<lambda>ns. ([], [])),
      hasExportingDecorator = (\<lambda>n. False)\<rparr>"

definition emptyState :: transformerState where
  "emptyState = \<lparr>loggedWarnings = [], diagnostics = []\<rparr>"

text \<open>\<^verbatim>\<open>class C extends B implements D {}\<close> and \<^verbatim>\<open>class C implements D {}\<close>.\<close>

definition exampleExtendsB :: heritageClause where
  "exampleExtendsB =
     \<lparr>token = ExtendsKeyword, types = Some [\<lparr>expression = 1, expressionText = ''B''\<rparr>]\<rparr>"

definition exampleImplementsD :: heritageClause where
  "exampleImplementsD =
     \<lparr>token = ImplementsKeyword, types = Some [\<lparr>expression = 2, expressionText = ''D''\<rparr>]\<rparr>"

definition exampleClass :: "heritageClause list \<Rightarrow> typeDeclaration" where
  "exampleClass clauses =
     \<lparr>nodeId = 10, modifierFlags = {}, parentModifierFlags = [{}], getText = ''class C {}'',
      name = Some (Identifier 11 ''C''), questionToken = False,
      declarationKind = ClassDeclaration, typeParameters = None,
      heritageClauses = Some clauses, members = []\<rparr>"

section \<open>jsdoc\_transformer.ts: member type declarations\<close>

text \<open>\<^verbatim>\<open>/^[a-zA-Z_][a-zA-Z0-9_]*$/.test(name)\<close>\<close>

definition isValidClosurePropertyName :: "string \<Rightarrow> bool" where
  "isValidClosurePropertyName n =
     (case n of
        [] \<Rightarrow> False
      | c # cs \<Rightarrow>
          (isAsciiLetter c \<or> c = CHR ''_'') \<and>
          list_all (\<lambda>d. isAsciiLetter d \<or> isAsciiDigit d \<or> d = CHR ''_'') cs)"

text \<open>\<^verbatim>\<open>propertyName\<close>. \<^verbatim>\<open>getIdentifierText\<close> (rewriter.ts, not in the sources) is
  taken to give the text of the identifier.\<close>

definition propertyName :: "'a namedDeclaration_scheme \<Rightarrow> string option" where
  "propertyName prop =
     (case name prop of
        None \<Rightarrow> None
      | Some (Identifier n txt) \<Rightarrow> Some txt
      | Some (StringLiteral n txt) \<Rightarrow>
          (if \<not> isValidClosurePropertyName txt then None else Some txt)
      | Some other \<Rightarrow> None)"

text \<open>\<^verbatim>\<open>addCommentOn(node, tags, escapeExtraTags)\<close>: the new comment goes behind the
  synthetic leading comments the node has.\<close>

definition addCommentOn :: "comment list \<Rightarrow> tag list \<Rightarrow> bool \<Rightarrow> comment list" where
  "addCommentOn comments tags escapeExtraTags = comments @ [JSDocComment tags escapeExtraTags]"

text \<open>\<^verbatim>\<open>createClosurePropertyDeclaration\<close>. The test \<^verbatim>\<open>!name\<close> also holds for the empty
  string.\<close>

definition createClosurePropertyDeclaration ::
  "moduleTypeTranslator \<Rightarrow> expr \<Rightarrow> 'a namedDeclaration_scheme \<Rightarrow> transformerState \<Rightarrow>
   statement \<times> transformerState" where
  "createClosurePropertyDeclaration mtt e prop st =
     (case propertyName prop of
        None \<Rightarrow>
          (createMultiLineComment
             (''Skipping unnamed member:'' @ [CHR 0x0A] @ escapeForComment (getText prop)),
           mttDebugWarn mtt (nodeId prop)
             (''handle unnamed member:'' @ [CHR 0x0A] @ escapeForComment (getText prop)) st)
      | Some n \<Rightarrow>
          if n = [] then
            (createMultiLineComment
               (''Skipping unnamed member:'' @ [CHR 0x0A] @ escapeForComment (getText prop)),
             mttDebugWarn mtt (nodeId prop)
               (''handle unnamed member:'' @ [CHR 0x0A] @ escapeForComment (getText prop)) st)
          else
            (let type0 = typeToClosure mtt (nodeId prop);
                 type1 = (if questionToken prop \<and> type0 = ''?'' then type0 @ ''|undefined''
                          else type0);
                 tags0 = getJSDoc mtt (nodeId prop) @ [(mkTag ''type'')\<lparr>type := Some type1\<rparr>];
                 tags1 = (if hasExportingDecorator mtt (nodeId prop)
                          then tags0 @ [mkTag ''export''] else tags0)
             in (ExpressionStatement (addCommentOn [] tags1 True) (PropertyAccessExpr e n), st)))"

text \<open>The first loop of \<^verbatim>\<open>createMemberTypeDeclaration\<close> sorts the members into five
  arrays.\<close>

record memberArrays =
  ctors :: "classElement list"
  nonStaticProps :: "classElement list"
  staticProps :: "classElement list"
  unhandled :: "classElement list"
  abstractMethods :: "classElement list"

definition sortMember :: "typeDeclaration \<Rightarrow> classElement \<Rightarrow> memberArrays \<Rightarrow> memberArrays" where
  "sortMember typeDecl member arrays =
     (if elementKind member = Constructor then arrays\<lparr>ctors := ctors arrays @ [member]\<rparr>
      else if elementKind member = PropertyDeclaration \<or> elementKind member = PropertySignature
        then (if hasModifierFlag member {Static}
              then arrays\<lparr>staticProps := staticProps arrays @ [member]\<rparr>
              else arrays\<lparr>nonStaticProps := nonStaticProps arrays @ [member]\<rparr>)
      else if elementKind member = MethodDeclaration \<or> elementKind member = MethodSignature
              \<or> elementKind member = GetAccessor \<or> elementKind member = SetAccessor
        then (if hasModifierFlag member {Abstract}
                 \<or> declarationKind typeDecl = InterfaceDeclaration
              then arrays\<lparr>abstractMethods := abstractMethods arrays @ [member]\<rparr>
              else arrays)
      else arrays\<lparr>unhandled := unhandled arrays @ [member]\<rparr>)"

definition FIELD_DECLARATION_MODIFIERS :: "modifierFlag set" where
  "FIELD_DECLARATION_MODIFIERS = {Private, Protected, Public, Readonly}"

text \<open>\<^verbatim>\<open>props.map(p => createClosurePropertyDeclaration(mtt, expr, p))\<close>, with the state
  passed from one call to the next.\<close>

fun propertyDeclarations ::
  "moduleTypeTranslator \<Rightarrow> expr \<Rightarrow> 'a namedDeclaration_scheme list \<Rightarrow> transformerState \<Rightarrow>
   statement list \<times> transformerState" where
  "propertyDeclarations mtt e [] st = ([], st)"
| "propertyDeclarations mtt e (p # ps) st =
     (let r = createClosurePropertyDeclaration mtt e p st;
          rs = propertyDeclarations mtt e ps (snd r)
      in (fst r # fst rs, snd rs))"

text \<open>The loop over the abstract methods; \<^verbatim>\<open>propertyDecls.push\<close> is written as the new
  array.\<close>

fun abstractMethodDeclarations ::
  "moduleTypeTranslator \<Rightarrow> expr \<Rightarrow> classElement list \<Rightarrow> statement list \<times> transformerState \<Rightarrow>
   statement list \<times> transformerState" where
  "abstractMethodDeclarations mtt instancePropAccess [] acc = acc"
| "abstractMethodDeclarations mtt instancePropAccess (fnDecl # rest) acc =
     (let n = (case propertyName fnDecl of None \<Rightarrow> [] | Some t \<Rightarrow> t) in
      if n = [] then
        abstractMethodDeclarations mtt instancePropAccess rest
          (fst acc, mttError mtt (nodeId fnDecl) ''anonymous abstract function'' (snd acc))
      else
        (let r = getFunctionTypeJSDoc mtt [nodeId fnDecl];
             tags = (if hasExportingDecorator mtt (nodeId fnDecl)
                     then fst r @ [mkTag ''export''] else fst r);
             abstractFnDecl =
               ExpressionStatement [JSDocComment tags False]
                 (AssignmentExpr (PropertyAccessExpr instancePropAccess n) (FunctionExpr (snd r)))
         in abstractMethodDeclarations mtt instancePropAccess rest
              (fst acc @ [abstractFnDecl], snd acc)))"

definition createMemberTypeDeclaration ::
  "moduleTypeTranslator \<Rightarrow> typeDeclaration \<Rightarrow> transformerState \<Rightarrow>
   statement option \<times> transformerState" where
  "createMemberTypeDeclaration mtt typeDecl st =
     (let arrays = foldl (\<lambda>a m. sortMember typeDecl m a)
            \<lparr>ctors = [], nonStaticProps = [], staticProps = [], unhandled = [],
             abstractMethods = []\<rparr> (members typeDecl);
          paramProps =
            (case ctors arrays of
               [] \<Rightarrow> []
             | ctor # others \<Rightarrow>
                 filter (\<lambda>p. hasModifierFlag p FIELD_DECLARATION_MODIFIERS) (parameters ctor))
      in if nonStaticProps arrays = [] \<and> paramProps = [] \<and> staticProps arrays = []
            \<and> abstractMethods arrays = []
         then (None, st)
         else
           (case name typeDecl of
              Some (Identifier idNode className) \<Rightarrow>
                (let staticPropAccess = IdentifierExpr className;
                     instancePropAccess = PropertyAccessExpr staticPropAccess ''prototype'';
                     r1 = propertyDeclarations mtt staticPropAccess (staticProps arrays) st;
                     r2 = propertyDeclarations mtt instancePropAccess (nonStaticProps arrays)
                            (snd r1);
                     r3 = propertyDeclarations mtt instancePropAccess paramProps (snd r2);
                     r4 = map (\<lambda>p. createMultiLineComment
                                (''Skipping unhandled member: '' @ escapeForComment (getText p)))
                            (unhandled arrays);
                     r5 = abstractMethodDeclarations mtt instancePropAccess
                            (abstractMethods arrays) (fst r1 @ fst r2 @ fst r3 @ r4, snd r3)
                 in (Some (IfStatement FalseLiteral (fst r5)), snd r5))
            | other \<Rightarrow>
                (None, mttDebugWarn mtt (nodeId typeDecl)
                   ''cannot add types on unnamed declarations'' st)))"

section \<open>jsdoc\_transformer.ts: interfaces\<close>

text \<open>\<^verbatim>\<open>visitInterfaceDeclaration\<close>. The symbol is looked up at the node of the name.\<close>

definition visitInterfaceDeclaration ::
  "moduleTypeTranslator \<Rightarrow> typeDeclaration \<Rightarrow> transformerState \<Rightarrow>
   statement list \<times> transformerState" where
  "visitInterfaceDeclaration mtt iface st =
     (case (case name iface of
              Some (Identifier idNode txt) \<Rightarrow> getSymbolAtLocation (checker mtt) idNode
            | other \<Rightarrow> None) of
        None \<Rightarrow> ([], mttError mtt (nodeId iface) ''interface with no symbol'' st)
      | Some symb \<Rightarrow>
          if flagsValue symb then
            ([createSingleLineComment
                ''WARNING: interface has both a type and a value, skipping emit''],
             mttDebugWarn mtt (nodeId iface)
               (''type/symbol conflict for '' @ symbolName symb @ '', using {?} for now'') st)
          else
            (let tags0 = getJSDoc mtt (nodeId iface) @ [mkTag ''record''];
                 tags1 = maybeAddTemplateClause tags0 iface;
                 r = (if \<not> untyped (host mtt) then maybeAddHeritageClauses tags1 mtt iface st
                      else (tags1, st));
                 n = (case name iface of Some (Identifier idNode txt) \<Rightarrow> txt | other \<Rightarrow> []);
                 modifiers = (if hasModifierFlag iface {Export} then [Export] else []);
                 decl = FunctionDeclarationStatement (addCommentOn [] (fst r) False) modifiers n
                          [] [];
                 m = createMemberTypeDeclaration mtt iface (snd r)
             in (case fst m of
                   Some memberDecl \<Rightarrow> ([decl, memberDecl], snd m)
                 | None \<Rightarrow> ([decl], snd m))))"

text \<open>\<^verbatim>\<open>interface I {}\<close>, without a comment, type parameters or heritage clauses; node 21
  is its name. In \<^verbatim>\<open>exampleValueChecker\<close> the name is also the name of a value.\<close>

definition exampleInterface :: typeDeclaration where
  "exampleInterface =
     \<lparr>nodeId = 20, modifierFlags = {}, parentModifierFlags = [{}], getText = ''interface I {}'',
      name = Some (Identifier 21 ''I''), questionToken = False,
      declarationKind = InterfaceDeclaration, typeParameters = None,
      heritageClauses = None, members = []\<rparr>"

definition exampleInterfaceTranslator :: "bool \<Rightarrow> bool \<Rightarrow> moduleTypeTranslator" where
  "exampleInterfaceTranslator alsoValue withLogWarning =
     (exampleTranslator withLogWarning)
       \<lparr>checker := exampleChecker
          \<lparr>getSymbolAtLocation :=
             (\<lambda>n. if n = 21 then Some ((exampleInterfaceSymbol ''I'')\<lparr>flagsValue := alsoValue\<rparr>)
                  else None)\<rparr>\<rparr>"

text \<open>The names of the tags in the leading comments of a statement.\<close>

fun commentTagNames :: "comment \<Rightarrow> string list" where
  "commentTagNames (JSDocComment tags escapeExtraTags) = map tagName tags"
| "commentTagNames (TextComment c) = []"

fun leadingTagNames :: "statement \<Rightarrow> string list" where
  "leadingTagNames (ExpressionStatement cs e) = concat (map commentTagNames cs)"
| "leadingTagNames (FunctionDeclarationStatement cs ms n ps body) =
     concat (map commentTagNames cs)"
| "leadingTagNames (IfStatement e body) = []"
| "leadingTagNames (NotEmittedStatement leading trailing) = concat (map commentTagNames leading)"
| "leadingTagNames (VariableStatement cs ms flags decl) = concat (map commentTagNames cs)"

fun isFunctionDeclaration :: "statement \<Rightarrow> bool" where
  "isFunctionDeclaration (FunctionDeclarationStatement cs ms n ps body) = True"
| "isFunctionDeclaration other = False"


text \<open>\<^verbatim>\<open>foo?: any\<close> as a property signature, node 30.\<close>

definition exampleOptionalAny :: classElement where
  "exampleOptionalAny =
     \<lparr>nodeId = 30, modifierFlags = {}, parentModifierFlags = [{}], getText = ''foo?: any;'',
      name = Some (Identifier 31 ''foo''), questionToken = True,
      elementKind = PropertySignature, parameters = []\<rparr>"

section \<open>jsdoc\_transformer.ts: variable statements\<close>

text \<open>The loop of \<^verbatim>\<open>visitVariableStatement\<close> over the declarations. \<^verbatim>\<open>tags\<close> holds the
  tags of the statement's own comment until the first declaration has taken them, then
  \<^verbatim>\<open>null\<close>.\<close>

fun declarationStatements ::
  "moduleTypeTranslator \<Rightarrow> variableStatement \<Rightarrow> tag list option \<Rightarrow> variableDeclaration list \<Rightarrow>
   statement list" where
  "declarationStatements mtt varStmt tags [] = []"
| "declarationStatements mtt varStmt tags (decl # rest) =
     (let localTags0 = (case tags of Some ts \<Rightarrow> ts | None \<Rightarrow> []);
          localTags =
            (case name decl of
               Some (Identifier n txt) \<Rightarrow>
                 (let blackListedInitialized =
                        (initializer decl \<noteq> None \<and> isBlackListed mtt (nodeId decl))
                  in if \<not> blackListedInitialized
                     then localTags0 @
                       [(mkTag ''type'')\<lparr>type := Some (typeToClosure mtt (originalNode decl))\<rparr>]
                     else localTags0)
             | other \<Rightarrow> localTags0);
          newStmt =
            VariableStatement (if localTags \<noteq> [] then addCommentOn [] localTags True else [])
              (modifierFlags varStmt) (declarationListFlags varStmt) decl
      in newStmt # declarationStatements mtt varStmt None rest)"

text \<open>\<^verbatim>\<open>c.text[0] !== '*'\<close>, which also holds for an empty text.\<close>

definition notJSDocComment :: "synthesizedComment \<Rightarrow> bool" where
  "notJSDocComment c = (case commentText c of [] \<Rightarrow> True | x # xs \<Rightarrow> x \<noteq> CHR ''*'')"

definition visitVariableStatement ::
  "moduleTypeTranslator \<Rightarrow> variableStatement \<Rightarrow> statement list" where
  "visitVariableStatement mtt varStmt =
     (let tags = Some (getJSDoc mtt (nodeId varStmt));
          stmts =
            (case syntheticLeadingComments varStmt of
               None \<Rightarrow> []
             | Some leading \<Rightarrow>
                 [NotEmittedStatement (map TextComment (filter notJSDocComment leading)) []])
      in stmts @ declarationStatements mtt varStmt tags (declarations varStmt))"

text \<open>The tags of the leading comments of a statement.\<close>

fun commentTags :: "comment \<Rightarrow> tag list" where
  "commentTags (JSDocComment tags escapeExtraTags) = tags"
| "commentTags (TextComment c) = []"

fun leadingTags :: "statement \<Rightarrow> tag list" where
  "leadingTags (ExpressionStatement cs e) = concat (map commentTags cs)"
| "leadingTags (FunctionDeclarationStatement cs ms n ps body) = concat (map commentTags cs)"
| "leadingTags (IfStatement e body) = []"
| "leadingTags (NotEmittedStatement leading trailing) = concat (map commentTags leading)"
| "leadingTags (VariableStatement cs ms flags decl) = concat (map commentTags cs)"

definition isIdentifier :: "'a namedDeclaration_scheme \<Rightarrow> bool" where
  "isIdentifier decl = (case name decl of Some (Identifier n txt) \<Rightarrow> True | other \<Rightarrow> False)"

text \<open>\<^verbatim>\<open>let a: Opaque, b: Opaque = f(), {c} = g();\<close> where the type \<^verbatim>\<open>Opaque\<close> is
  black-listed: nodes 41, 42 and 43.\<close>

definition exampleDeclaration ::
  "nat \<Rightarrow> declarationName \<Rightarrow> nat option \<Rightarrow> variableDeclaration" where
  "exampleDeclaration n nm init =
     \<lparr>nodeId = n, modifierFlags = {}, parentModifierFlags = [{}, {}], getText = [],
      name = Some nm, questionToken = False, initializer = init, originalNode = n\<rparr>"

definition exampleVariableStatement :: variableStatement where
  "exampleVariableStatement =
     \<lparr>nodeId = 40, modifierFlags = {}, parentModifierFlags = [{}], getText = [],
      syntheticLeadingComments = None, declarationListFlags = 1,
      declarations =
        [exampleDeclaration 41 (Identifier 51 ''a'') None,
         exampleDeclaration 42 (Identifier 52 ''b'') (Some 62),
         exampleDeclaration 43 (BindingPattern 53 ''{c}'') (Some 63)]\<rparr>"

definition exampleBlacklistTranslator :: moduleTypeTranslator where
  "exampleBlacklistTranslator =
     (exampleTranslator False)\<lparr>isBlackListed := (\<lambda>n. n = 41 \<or> n = 42)\<rparr>"

section \<open>jsdoc\_transformer.ts: type aliases\<close>

datatype moduleKind = ModuleKindNone | CommonJS | AMD | UMD | System | ES2015 | ESNext

record compilerOptions =
  moduleOption :: "moduleKind option"

datatype failure = NoSymbol | TypeError

text \<open>Modelled from the spec: \<^verbatim>\<open>mustGetSymbolAtLocation\<close> of the module type translator is
  not in the sources. A name without a symbol is "an unresolvable symbol in a context that
  requires resolution"; that case is kept apart as a failure.\<close>

definition mustGetSymbolAtLocation ::
  "moduleTypeTranslator \<Rightarrow> declarationName option \<Rightarrow> failure + symbol" where
  "mustGetSymbolAtLocation mtt nm =
     (case nm of
        Some (Identifier n txt) \<Rightarrow>
          (case getSymbolAtLocation (checker mtt) n of
             None \<Rightarrow> Inl NoSymbol
           | Some symb \<Rightarrow> Inr symb)
      | other \<Rightarrow> Inl NoSymbol)"

text \<open>\<^verbatim>\<open>visitTypeAliasDeclaration\<close>. The type parameters are black-listed inside the type
  translator, which shows in \<^verbatim>\<open>translate\<close> only.\<close>

definition visitTypeAliasDeclaration ::
  "moduleTypeTranslator \<Rightarrow> compilerOptions \<Rightarrow> namedDeclaration \<Rightarrow> failure + statement list" where
  "visitTypeAliasDeclaration mtt tsOptions typeAlias =
     (case mustGetSymbolAtLocation mtt (name typeAlias) of
        Inl e \<Rightarrow> Inl e
      | Inr symb \<Rightarrow>
          Inr (if flagsValue symb then []
               else if \<not> hasModifierFlag typeAlias {Export} then []
               else if moduleOption tsOptions \<noteq> Some CommonJS then []
               else
                 (let typeName =
                        (case name typeAlias of Some (Identifier n txt) \<Rightarrow> txt | other \<Rightarrow> []);
                      typeStr = (if untyped (host mtt) then ''?''
                                 else typeToClosure mtt (nodeId typeAlias));
                      tags = getJSDoc mtt (nodeId typeAlias) @
                        [(mkTag ''typedef'')\<lparr>type := Some typeStr\<rparr>];
                      decl = ExpressionStatement (addCommentOn [] tags True)
                        (PropertyAccessExpr (IdentifierExpr ''exports'') typeName)
                  in [decl])))"

text \<open>\<^verbatim>\<open>export type T = number;\<close>, node 70, with the name at node 71.\<close>

definition exampleTypeAlias :: "modifierFlag set \<Rightarrow> namedDeclaration" where
  "exampleTypeAlias ms =
     \<lparr>nodeId = 70, modifierFlags = ms, parentModifierFlags = [{}],
      getText = ''type T = number;'', name = Some (Identifier 71 ''T''),
      questionToken = False\<rparr>"

definition exampleTypeAliasTranslator :: moduleTypeTranslator where
  "exampleTypeAliasTranslator =
     (exampleTranslator False)
       \<lparr>checker := exampleChecker
          \<lparr>getSymbolAtLocation :=
             (\<lambda>n. if n = 71 then Some ((exampleInterfaceSymbol ''T'')\<lparr>flagsTypeAlias := True\<rparr>)
                  else None)\<rparr>\<rparr>"

section \<open>externs.ts\<close>

text \<open>
  The statements of a declaration file, as far as the module and function cases of the
  visitor go. \<^verbatim>\<open>UnhandledNode\<close> is a node of a kind that has no case of its own in the
  visitor, with the name of its kind. Classes, interfaces, enums, variable statements, type
  aliases and import-equals declarations have cases of their own in the source and are no
  nodes of this model.
\<close>

datatype externsNode =
  ModuleDeclaration nat declarationName "externsNode option"
  | ModuleBlock "externsNode list"
  | FunctionDeclarationNode signatureDeclaration
  | UnhandledNode string

text \<open>What \<^verbatim>\<open>createExterns\<close> builds: \<^verbatim>\<open>emitted\<close> holds the strings appended to
  \<^verbatim>\<open>output\<close>, one for each call of \<^verbatim>\<open>emit\<close>, in order.\<close>

record externsState =
  emitted :: "string list"
  externsDiagnostics :: "diagnostic list"

definition outputText :: "externsState \<Rightarrow> string" where
  "outputText st = concat (emitted st)"

definition emit :: "string \<Rightarrow> externsState \<Rightarrow> externsState" where
  "emit str st = st\<lparr>emitted := emitted st @ [str]\<rparr>"

definition error :: "nat \<Rightarrow> string \<Rightarrow> externsState \<Rightarrow> externsState" where
  "error node msg st =
     st\<lparr>externsDiagnostics := externsDiagnostics st @
          [\<lparr>contextNode = node, messageText = msg, category = Error\<rparr>]\<rparr>"

subsection \<open>The merged function type\<close>

text \<open>The members of a union, each once, in the order of their first occurrence.\<close>

definition unionMembers :: "string list \<Rightarrow> string list" where
  "unionMembers ts = rev (remdups (rev ts))"

definition unionType :: "string list \<Rightarrow> string" where
  "unionType ts =
     (case unionMembers ts of
        [t] \<Rightarrow> t
      | us \<Rightarrow> ''('' @ join ''|'' us @ '')'')"

definition maxArity :: "signatureDeclaration list \<Rightarrow> nat" where
  "maxArity decls = foldr max (map (\<lambda>d. length (fnParameters d)) decls) 0"

definition parametersAt :: "signatureDeclaration list \<Rightarrow> nat \<Rightarrow> (string \<times> string) list" where
  "parametersAt decls i =
     map (\<lambda>d. fnParameters d ! i) (filter (\<lambda>d. i < length (fnParameters d)) decls)"

text \<open>Modelled from the spec: \<^verbatim>\<open>getFunctionTypeJSDoc\<close> of the module type translator is not
  in the sources. It "accepts one or more declarations that share a name and produces
  (tags, parameterNames) where tags describes a single composite signature: each parameter is
  the union of the respective parameter types across overloads (padded where arities differ),
  the return type is the union of all return types, and parameterNames is the first
  overload's parameter names". A position the first overload does not have takes its name
  from the first overload that has it.\<close>

definition mergedParamTag :: "signatureDeclaration list \<Rightarrow> nat \<Rightarrow> tag" where
  "mergedParamTag decls i =
     \<lparr>tagName = ''param'',
      parameterName = (case parametersAt decls i of [] \<Rightarrow> None | p # ps \<Rightarrow> Some (fst p)),
      type = Some (unionType (map snd (parametersAt decls i))),
      tagText = None\<rparr>"

definition mergedReturnTag :: "signatureDeclaration list \<Rightarrow> tag" where
  "mergedReturnTag decls =
     \<lparr>tagName = ''return'', parameterName = None,
      type = Some (unionType (map fnReturnType decls)), tagText = None\<rparr>"

definition mergedFunctionTypeJSDoc :: "signatureDeclaration list \<Rightarrow> tag list \<times> string list" where
  "mergedFunctionTypeJSDoc decls =
     (map (mergedParamTag decls) [0 ..< maxArity decls] @ [mergedReturnTag decls],
      map (\<lambda>i. case parametersAt decls i of [] \<Rightarrow> [] | p # ps \<Rightarrow> fst p)
        [0 ..< maxArity decls])"

subsection \<open>The visitor\<close>

text \<open>What the visitor needs from outside: the symbol at a name, the comment printer
  \<^verbatim>\<open>jsdoc.toString\<close>, and the base name of the source file.\<close>

record externsContext =
  symbolAt :: "nat \<Rightarrow> symbol option"
  jsdocToString :: "tag list \<Rightarrow> string"
  fileBaseName :: string

definition declarationNodeId :: "declarationNode \<Rightarrow> nat" where
  "declarationNodeId d =
     (case d of FunctionDeclaration f \<Rightarrow> fnNodeId f | OtherDeclaration n \<Rightarrow> n)"

text \<open>\<^verbatim>\<open>isFirstDeclaration\<close> for a declaration with a name. The symbol is used without a
  test (\<^verbatim>\<open>getSymbolAtLocation(decl.name)!\<close>): a name without a symbol is a type error at
  run time.\<close>

definition isFirstDeclaration :: "externsContext \<Rightarrow> nat \<Rightarrow> nat \<Rightarrow> failure + bool" where
  "isFirstDeclaration ctx declNode nameNode =
     (case symbolAt ctx nameNode of
        None \<Rightarrow> Inl TypeError
      | Some symb \<Rightarrow>
          (case symbolDeclarations symb of
             None \<Rightarrow> Inr True
           | Some ds \<Rightarrow>
               if length ds < 2 then Inr True
               else Inr (declNode = declarationNodeId (hd ds))))"

definition writeExternsVariable ::
  "string \<Rightarrow> string list \<Rightarrow> string option \<Rightarrow> externsState \<Rightarrow> externsState" where
  "writeExternsVariable n namespace val st =
     (let qualifiedName = join ''.'' (namespace @ [n]);
          st1 = (if namespace = [] then emit ''var '' st else st);
          st2 = emit qualifiedName st1;
          st3 = (case val of
                   None \<Rightarrow> st2
                 | Some v \<Rightarrow> if v = [] then st2 else emit ('' = '' @ v) st2)
      in emit ('';'' @ [CHR 0x0A]) st3)"

definition emitFunctionType ::
  "externsContext \<Rightarrow> signatureDeclaration list \<Rightarrow> tag list \<Rightarrow> externsState \<Rightarrow>
   string list \<times> externsState" where
  "emitFunctionType ctx decls extraTags st =
     (let r = mergedFunctionTypeJSDoc decls;
          st1 = emit [CHR 0x0A] st;
          st2 = emit (jsdocToString ctx (extraTags @ fst r)) st1
      in (snd r, st2))"

text \<open>\<^verbatim>\<open>writeExternsFunction\<close> for a name that is an identifier.\<close>

definition writeExternsFunction ::
  "string \<Rightarrow> string list \<Rightarrow> string list \<Rightarrow> externsState \<Rightarrow> externsState" where
  "writeExternsFunction nameText params namespace st =
     (let paramsStr = join '', '' params in
      if length namespace > 0 then
        emit (join ''.'' namespace @ ''.'' @ nameText @ '' = function('' @ paramsStr @ '') {};''
              @ [CHR 0x0A]) st
      else
        emit (''function '' @ nameText @ ''('' @ paramsStr @ '') {}'' @ [CHR 0x0A]) st)"

text \<open>The name of the module, made an identifier:
  \<^verbatim>\<open>importName.replace(/_/, '__').replace(/[^A-Za-z]/g, '_')\<close>\<close>

definition mangledImportName :: "string \<Rightarrow> string" where
  "mangledImportName importName =
     map (\<lambda>c. if isAsciiLetter c then c else CHR ''_'')
       (replaceFirst (CHR ''_'') ''__'' importName)"

text \<open>The same as the specification words it: every underscore doubled, then every character that
  is not a letter replaced by an underscore.\<close>

definition specifiedImportName :: "string \<Rightarrow> string" where
  "specifiedImportName importName =
     map (\<lambda>c. if isAsciiLetter c then c else CHR ''_'')
       (concat (map (\<lambda>c. if c = CHR ''_'' then ''__'' else [c]) importName))"

definition functionDeclarationsOf :: "declarationNode list \<Rightarrow> signatureDeclaration list" where
  "functionDeclarationsOf ds =
     concat (map (\<lambda>d. case d of FunctionDeclaration f \<Rightarrow> [f] | OtherDeclaration n \<Rightarrow> []) ds)"

definition kindName :: "declarationName \<Rightarrow> string" where
  "kindName nm =
     (case nm of
        Identifier n t \<Rightarrow> ''Identifier''
      | StringLiteral n t \<Rightarrow> ''StringLiteral''
      | ComputedPropertyName n t \<Rightarrow> ''ComputedPropertyName''
      | BindingPattern n t \<Rightarrow> ''ObjectBindingPattern'')"

definition nameNodeId :: "declarationName \<Rightarrow> nat" where
  "nameNodeId nm =
     (case nm of
        Identifier n t \<Rightarrow> n | StringLiteral n t \<Rightarrow> n
      | ComputedPropertyName n t \<Rightarrow> n | BindingPattern n t \<Rightarrow> n)"

text \<open>The case of a function declaration in the visitor.\<close>

definition visitFunctionDeclaration ::
  "externsContext \<Rightarrow> signatureDeclaration \<Rightarrow> string list \<Rightarrow> externsState \<Rightarrow>
   failure + externsState" where
  "visitFunctionDeclaration ctx fnDecl namespace st =
     (case fnName fnDecl of
        None \<Rightarrow> Inr (error (fnNodeId fnDecl) ''anonymous function in externs'' st)
      | Some nm \<Rightarrow>
          (case symbolAt ctx (fst nm) of
             None \<Rightarrow> Inl TypeError
           | Some symb \<Rightarrow>
               (case symbolDeclarations symb of
                  None \<Rightarrow> Inl TypeError
                | Some ds \<Rightarrow>
                    (let decls = functionDeclarationsOf ds in
                     case decls of
                       [] \<Rightarrow> Inr st
                     | first # others \<Rightarrow>
                         if fnNodeId fnDecl \<noteq> fnNodeId first then Inr st
                         else
                           (let r = emitFunctionType ctx decls [] st
                            in Inr (writeExternsFunction (snd nm) (fst r) namespace (snd r)))))))"

text \<open>The visitor, and the loop over the statements of a module block.\<close>

fun visitor ::
  "externsContext \<Rightarrow> externsNode \<Rightarrow> string list \<Rightarrow> externsState \<Rightarrow> failure + externsState"
  and visitStatements ::
  "externsContext \<Rightarrow> externsNode list \<Rightarrow> string list \<Rightarrow> externsState \<Rightarrow>
   failure + externsState" where
  "visitor ctx (ModuleDeclaration declNode nm body) namespace st =
     (case nm of
        Identifier n txt \<Rightarrow>
          (if txt = ''global'' then
             (case body of None \<Rightarrow> Inr st | Some b \<Rightarrow> visitor ctx b [] st)
           else
             (case isFirstDeclaration ctx declNode n of
                Inl e \<Rightarrow> Inl e
              | Inr isFirst \<Rightarrow>
                  (let st1 = (if isFirst
                              then writeExternsVariable txt namespace (Some ''{}'')
                                     (emit (''/** @const */'' @ [CHR 0x0A]) st)
                              else st)
                   in case body of
                        None \<Rightarrow> Inr st1
                      | Some b \<Rightarrow> visitor ctx b (namespace @ [txt]) st1)))
      | StringLiteral n txt \<Rightarrow>
          (let st1 = writeExternsVariable ''tsickle_declare_module'' [] (Some ''{}'')
                       (emit (''/** @const */'' @ [CHR 0x0A]) st);
               st2 = emit (''// Derived from: declare module '' @ [CHR 0x22] @ txt @ [CHR 0x22]
                     @ [CHR 0x0A]) st1;
               importName = mangledImportName txt
           in case isFirstDeclaration ctx declNode n of
                Inl e \<Rightarrow> Inl e
              | Inr isFirst \<Rightarrow>
                  (let st3 = (if isFirst
                              then writeExternsVariable importName [''tsickle_declare_module'']
                                     (Some ''{}'') (emit (''/** @const */'' @ [CHR 0x0A]) st2)
                              else st2)
                   in case body of
                        None \<Rightarrow> Inr st3
                      | Some b \<Rightarrow>
                          visitor ctx b ([''tsickle_declare_module''] @ [importName]) st3))
      | other \<Rightarrow>
          Inr (error (nameNodeId other)
                 (kindName other @ '' not implemented in externs generation of namespace'') st))"
| "visitor ctx (ModuleBlock stmts) namespace st = visitStatements ctx stmts namespace st"
| "visitor ctx (FunctionDeclarationNode fnDecl) namespace st =
     visitFunctionDeclaration ctx fnDecl namespace st"
| "visitor ctx (UnhandledNode k) namespace st =
     (let joined = join ''.'' namespace;
          locationStr = (if joined = [] then fileBaseName ctx else joined)
      in Inr (emit ([CHR 0x0A] @ ''// TODO(tsickle): '' @ k @ '' in '' @ locationStr @ [CHR 0x0A])
                st))"
| "visitStatements ctx [] namespace st = Inr st"
| "visitStatements ctx (stmt # rest) namespace st =
     (case visitor ctx stmt namespace st of
        Inl e \<Rightarrow> Inl e
      | Inr st1 \<Rightarrow> visitStatements ctx rest namespace st1)"

text \<open>\<^verbatim>\<open>createExterns\<close>: the loop over the statements of the source file, each with its
  modifier flags.\<close>

fun createExternsLoop ::
  "externsContext \<Rightarrow> bool \<Rightarrow> (modifierFlag set \<times> externsNode) list \<Rightarrow> externsState \<Rightarrow>
   failure + externsState" where
  "createExternsLoop ctx isDts [] st = Inr st"
| "createExternsLoop ctx isDts (stmt # rest) st =
     (if \<not> isDts \<and> fst stmt \<inter> {Ambient} = {} then createExternsLoop ctx isDts rest st
      else (case visitor ctx (snd stmt) [] st of
              Inl e \<Rightarrow> Inl e
            | Inr st1 \<Rightarrow> createExternsLoop ctx isDts rest st1))"

definition createExterns ::
  "externsContext \<Rightarrow> bool \<Rightarrow> (modifierFlag set \<times> externsNode) list \<Rightarrow>
   failure + string \<times> diagnostic list" where
  "createExterns ctx isDts statements =
     (case createExternsLoop ctx isDts statements \<lparr>emitted = [], externsDiagnostics = []\<rparr> of
        Inl e \<Rightarrow> Inl e
      | Inr st \<Rightarrow> Inr (outputText st, externsDiagnostics st))"

text \<open>A declaration \<open>d\<close> is one of the overloads \<open>decls\<close> of the function \<open>f\<close>: its name
  is \<open>f\<close>, and the function declarations of the symbol at its name are \<open>decls\<close>.\<close>

definition declaresOverload ::
  "externsContext \<Rightarrow> string \<Rightarrow> signatureDeclaration list \<Rightarrow> signatureDeclaration \<Rightarrow> bool" where
  "declaresOverload ctx f decls d =
     (case fnName d of
        None \<Rightarrow> False
      | Some nm \<Rightarrow>
          snd nm = f \<and>
          (case symbolAt ctx (fst nm) of
             None \<Rightarrow> False
           | Some symb \<Rightarrow>
               (case symbolDeclarations symb of
                  None \<Rightarrow> False
                | Some ds \<Rightarrow> functionDeclarationsOf ds = decls)))"

text \<open>\<^verbatim>\<open>declare function f(x: number): void; declare function f(x: string): number;\<close>
  at the nodes 1 and 2, with the names at the nodes 11 and 12; and
  \<^verbatim>\<open>declare module "a_b_c" {}\<close> at node 3 with its name at node 13.\<close>

definition exampleOverload1 :: signatureDeclaration where
  "exampleOverload1 =
     \<lparr>fnNodeId = 1, fnName = Some (11, ''f''), fnParameters = [(''x'', ''number'')],
      fnReturnType = ''void''\<rparr>"

definition exampleOverload2 :: signatureDeclaration where
  "exampleOverload2 =
     \<lparr>fnNodeId = 2, fnName = Some (12, ''f''), fnParameters = [(''x'', ''string'')],
      fnReturnType = ''number''\<rparr>"

text \<open>A printer for the example: one line for each tag.\<close>

definition exampleTagLine :: "tag \<Rightarrow> string" where
  "exampleTagLine t =
     '' * @'' @ tagName t @
     (case type t of None \<Rightarrow> [] | Some ty \<Rightarrow> '' {'' @ ty @ ''}'') @
     (case parameterName t of None \<Rightarrow> [] | Some p \<Rightarrow> '' '' @ p) @ [CHR 0x0A]"

definition exampleToString :: "tag list \<Rightarrow> string" where
  "exampleToString tags = ''/**'' @ [CHR 0x0A] @ concat (map exampleTagLine tags) @ '' */'' @ [CHR 0x0A]"

definition exampleExternsContext :: externsContext where
  "exampleExternsContext =
     \<lparr>symbolAt =
        (\<lambda>n. if n = 11 \<or> n = 12 then
               Some ((exampleInterfaceSymbol ''f'')
                 \<lparr>flagsValue := True,
                  symbolDeclarations :=
                    Some [FunctionDeclaration exampleOverload1,
                          FunctionDeclaration exampleOverload2]\<rparr>)
             else if n = 13 then
               Some ((exampleInterfaceSymbol ''a_b_c'')
                 \<lparr>flagsValue := True, symbolDeclarations := Some [OtherDeclaration 3]\<rparr>)
             else None),
      jsdocToString = exampleToString,
      fileBaseName = ''example.d.ts''\<rparr>"

section \<open>Comment ranges (C9)\<close>

lemma forEachParsedComment_acc:
  "forEachParsedComment t cs acc =
     acc @ map (synthesized t) (filter (\<lambda>c. \<not> isTripleSlash t c) cs)"
proof (induction cs arbitrary: acc)
  case Nil
  show ?case by simp
next
  case (Cons c cs)
  show ?case
  proof (cases "kind c")
    case SingleLineCommentTrivia
    then show ?thesis
      by (simp add: Cons.IH isTripleSlash_def synthesized_def Let_def)
  next
    case MultiLineCommentTrivia
    then show ?thesis
      by (simp add: Cons.IH isTripleSlash_def synthesized_def Let_def)
  qed
qed

lemma stripMultiLineDelimiters_wellformed:
  "stripMultiLineDelimiters (''/*'' @ body @ ''*/'') = body"
  by (simp add: stripMultiLineDelimiters_def startsWith_def endsWith_def)

lemma stripSingleLineDelimiter_wellformed:
  "stripSingleLineDelimiter (''//'' @ body) = body"
  by (simp add: stripSingleLineDelimiter_def startsWith_def)

text \<open>
  C9. \<^verbatim>\<open>synthesizeCommentRanges\<close> returns, in the order of the input, one synthesized
  comment for every parsed range except the single-line comments whose trimmed text starts
  with \<^verbatim>\<open>///\<close>, which are left out. The text of a multi-line comment \<^verbatim>\<open>/*body*/\<close> is
  \<open>body\<close>, the text of a single-line comment \<^verbatim>\<open>//body\<close> is \<open>body\<close>; kind and
  \<^verbatim>\<open>hasTrailingNewLine\<close> are kept and the positions are \<open>-1\<close>.
\<close>

theorem synthesizeCommentRanges_omits_triple_slash_strips_delimiters:
  "synthesizeCommentRanges sourceText parsedComments =
     map (synthesized sourceText) (filter (\<lambda>c. \<not> isTripleSlash sourceText c) parsedComments)
   \<and> (\<forall>c body. kind c = MultiLineCommentTrivia \<and>
          trim (substring sourceText (pos c) (endPos c)) = ''/*'' @ body @ ''*/''
        \<longrightarrow> commentText (synthesized sourceText c) = body)
   \<and> (\<forall>c body. kind c = SingleLineCommentTrivia \<and>
          trim (substring sourceText (pos c) (endPos c)) = ''//'' @ body
        \<longrightarrow> commentText (synthesized sourceText c) = body)"
proof (intro conjI allI impI)
  show "synthesizeCommentRanges sourceText parsedComments =
     map (synthesized sourceText) (filter (\<lambda>c. \<not> isTripleSlash sourceText c) parsedComments)"
    by (simp add: synthesizeCommentRanges_def forEachParsedComment_acc)
next
  fix c :: commentRange and body
  assume "kind c = MultiLineCommentTrivia \<and>
          trim (substring sourceText (pos c) (endPos c)) = ''/*'' @ body @ ''*/''"
  then show "commentText (synthesized sourceText c) = body"
    using stripMultiLineDelimiters_wellformed [of body] by (simp add: synthesized_def)
next
  fix c :: commentRange and body
  assume "kind c = SingleLineCommentTrivia \<and>
          trim (substring sourceText (pos c) (endPos c)) = ''//'' @ body"
  then show "commentText (synthesized sourceText c) = body"
    using stripSingleLineDelimiter_wellformed [of body] by (simp add: synthesized_def)
qed

theorem synthesizeCommentRanges_witness:
  "synthesizeCommentRanges ''/*a*/ //b ///c ''
     [\<lparr>kind = MultiLineCommentTrivia, pos = 0, endPos = 5, hasTrailingNewLine = Some False\<rparr>,
      \<lparr>kind = SingleLineCommentTrivia, pos = 6, endPos = 10, hasTrailingNewLine = Some True\<rparr>,
      \<lparr>kind = SingleLineCommentTrivia, pos = 10, endPos = 15, hasTrailingNewLine = None\<rparr>]
   = [\<lparr>kind = MultiLineCommentTrivia, pos = -1, endPos = -1, hasTrailingNewLine = Some False,
        commentText = ''a''\<rparr>,
      \<lparr>kind = SingleLineCommentTrivia, pos = -1, endPos = -1, hasTrailingNewLine = Some True,
        commentText = ''b''\<rparr>]"
proof -
  let ?t = "''/*a*/ //b ///c ''"
  let ?c1 = "\<lparr>kind = MultiLineCommentTrivia, pos = 0, endPos = 5, hasTrailingNewLine = Some False\<rparr>"
  let ?c2 = "\<lparr>kind = SingleLineCommentTrivia, pos = 6, endPos = 10, hasTrailingNewLine = Some True\<rparr>"
  let ?c3 = "\<lparr>kind = SingleLineCommentTrivia, pos = 10, endPos = 15, hasTrailingNewLine = None\<rparr>"
  note th = synthesizeCommentRanges_omits_triple_slash_strips_delimiters [of ?t "[?c1, ?c2, ?c3]"]
  have t1: "trim (substring ?t 0 5) = ''/*'' @ ''a'' @ ''*/''"
    by (simp add: trim_def substring_def isWhiteSpace_def)
  have t2: "trim (substring ?t 6 10) = ''//'' @ ''b''"
    by (simp add: trim_def substring_def isWhiteSpace_def)
  have t3: "trim (substring ?t 10 15) = ''///c''"
    by (simp add: trim_def substring_def isWhiteSpace_def)
  from th have b1: "commentText (synthesized ?t ?c1) = ''a''"
    using t1 by (auto simp del: append.simps)
  from th have b2: "commentText (synthesized ?t ?c2) = ''b''"
    using t2 by (auto simp del: append.simps)
  have s1: "synthesized ?t ?c1 = \<lparr>kind = MultiLineCommentTrivia, pos = -1, endPos = -1,
      hasTrailingNewLine = Some False, commentText = ''a''\<rparr>"
    using b1 by (simp add: synthesized_def)
  have s2: "synthesized ?t ?c2 = \<lparr>kind = SingleLineCommentTrivia, pos = -1, endPos = -1,
      hasTrailingNewLine = Some True, commentText = ''b''\<rparr>"
    using b2 by (simp add: synthesized_def)
  have f: "filter (\<lambda>c. \<not> isTripleSlash ?t c) [?c1, ?c2, ?c3] = [?c1, ?c2]"
    using t2 t3 by (simp add: isTripleSlash_def startsWith_def)
  from th have "synthesizeCommentRanges ?t [?c1, ?c2, ?c3] =
      map (synthesized ?t) (filter (\<lambda>c. \<not> isTripleSlash ?t c) [?c1, ?c2, ?c3])"
    by blast
  then show ?thesis unfolding f using s1 s2 by simp
qed

section \<open>Comment escaping (C10)\<close>

lemma hasPair_sublist: "hasPair a b xs \<longleftrightarrow> sublist [a, b] xs"
proof (induction a b xs rule: hasPair.induct)
  case (1 a b x y zs)
  then show ?case by (auto simp: sublist_Cons_right)
qed (simp_all add: sublist_Cons_right)

lemma replaceAll2_hd:
  "replaceAll2 a b ''__'' (y # zs) = w # ws \<Longrightarrow> w = y \<or> w = CHR ''_''"
  by (cases zs) (auto split: if_splits)

lemma hasPair_Cons:
  "hasPair a b (x # ys) \<longleftrightarrow>
     (case ys of [] \<Rightarrow> False | y # _ \<Rightarrow> x = a \<and> y = b) \<or> hasPair a b ys"
  by (cases ys) auto

lemma replaceAll2_removes:
  assumes "a \<noteq> CHR ''_''" "b \<noteq> CHR ''_''"
  shows "\<not> hasPair a b (replaceAll2 a b ''__'' xs)"
  using assms
proof (induction a b "''__''" xs rule: replaceAll2.induct)
  case (1 a b x y zs)
  show ?case
  proof (cases "x = a \<and> y = b")
    case True
    with 1 show ?thesis by (auto simp: hasPair_Cons split: list.splits)
  next
    case False
    with 1 have IH: "\<not> hasPair a b (replaceAll2 a b ''__'' (y # zs))" by simp
    show ?thesis
    proof (cases "replaceAll2 a b ''__'' (y # zs)")
      case Nil
      with False show ?thesis by auto
    next
      case (Cons w ws)
      from replaceAll2_hd[OF Cons] have "w = y \<or> w = CHR ''_''" .
      with False IH Cons 1(4) show ?thesis by (auto simp: hasPair_Cons)
    qed
  qed
qed simp_all

lemma replaceAll2_preserves:
  assumes "c \<noteq> CHR ''_''" "d \<noteq> CHR ''_''" "\<not> hasPair c d xs"
  shows "\<not> hasPair c d (replaceAll2 a b ''__'' xs)"
  using assms
proof (induction a b "''__''" xs rule: replaceAll2.induct)
  case (1 a b x y zs)
  from 1(5) have nxy: "\<not> (x = c \<and> y = d)" and nrest: "\<not> hasPair c d (y # zs)" by auto
  show ?case
  proof (cases "x = a \<and> y = b")
    case True
    from nrest have "\<not> hasPair c d zs" by (cases zs) auto
    with True 1 show ?thesis by (auto simp: hasPair_Cons split: list.splits)
  next
    case False
    with 1 nrest have IH: "\<not> hasPair c d (replaceAll2 a b ''__'' (y # zs))" by simp
    show ?thesis
    proof (cases "replaceAll2 a b ''__'' (y # zs)")
      case Nil
      with False show ?thesis by auto
    next
      case (Cons w ws)
      from replaceAll2_hd[OF Cons] have "w = y \<or> w = CHR ''_''" .
      with False IH Cons nxy 1(4) show ?thesis by (auto simp: hasPair_Cons)
    qed
  qed
qed simp_all

lemma escapeForComment_absent:
  "\<not> sublist ''/*'' (escapeForComment str) \<and> \<not> sublist ''*/'' (escapeForComment str)"
proof -
  have 1: "\<not> hasPair (CHR ''/'') (CHR ''*'') (replaceAll2 (CHR ''/'') (CHR ''*'') ''__'' str)"
    by (rule replaceAll2_removes) simp_all
  have 2: "\<not> hasPair (CHR ''/'') (CHR ''*'') (escapeForComment str)"
    unfolding escapeForComment_def by (rule replaceAll2_preserves[OF _ _ 1]) simp_all
  have 3: "\<not> hasPair (CHR ''*'') (CHR ''/'') (escapeForComment str)"
    unfolding escapeForComment_def by (rule replaceAll2_removes) simp_all
  from 2 3 show ?thesis by (simp add: hasPair_sublist)
qed

text \<open>How a global replacement goes through a string that is put together from parts.\<close>

lemma replaceAll2_Cons_no_match:
  "c \<noteq> a \<or> y = [] \<or> hd y \<noteq> b \<Longrightarrow> replaceAll2 a b r (c # y) = c # replaceAll2 a b r y"
  by (cases y) auto

lemma replaceAll2_through_char:
  "a \<noteq> b \<Longrightarrow> x = [] \<or> last x \<noteq> a \<or> c \<noteq> b \<Longrightarrow> c \<noteq> a \<or> y = [] \<or> hd y \<noteq> b \<Longrightarrow>
   replaceAll2 a b r (x @ c # y) = replaceAll2 a b r x @ c # replaceAll2 a b r y"
proof (induction x rule: induct_list012)
  case 1
  then show ?case by (simp add: replaceAll2_Cons_no_match)
next
  case (2 e)
  then have "replaceAll2 a b r (e # c # y) = e # replaceAll2 a b r (c # y)" by auto
  with 2 show ?case by (simp add: replaceAll2_Cons_no_match)
next
  case (3 e f zs)
  from 3(4) have l: "zs = [] \<or> last zs \<noteq> a \<or> c \<noteq> b" and l2: "last (f # zs) \<noteq> a \<or> c \<noteq> b"
    by (auto split: if_splits)
  show ?case
  proof (cases "e = a \<and> f = b")
    case True
    with 3(1) [OF 3(3) l 3(5)] show ?thesis by simp
  next
    case False
    with 3(2) [OF 3(3) _ 3(5)] l2 show ?thesis by auto
  qed
qed

lemma replaceAll2_through_match:
  "a \<noteq> b \<Longrightarrow>
   replaceAll2 a b r (x @ a # b # y) = replaceAll2 a b r x @ r @ replaceAll2 a b r y"
proof (induction x rule: induct_list012)
  case 1
  then show ?case by simp
next
  case (2 e)
  then show ?case by auto
next
  case (3 e f zs)
  show ?case
  proof (cases "e = a \<and> f = b")
    case True
    with 3(1) [OF 3(3)] show ?thesis by simp
  next
    case False
    with 3(2) [OF 3(3)] show ?thesis by auto
  qed
qed

lemma replaceAll2_no_occurrence:
  "\<not> hasPair a b s \<Longrightarrow> replaceAll2 a b r s = s"
  by (induction s rule: induct_list012) auto

lemma escapeForComment_open:
  "escapeForComment (u @ ''/*'' @ v) = escapeForComment u @ ''__'' @ escapeForComment v"
proof -
  let ?r1 = "replaceAll2 (CHR ''/'') (CHR ''*'') ''__''"
  let ?r2 = "replaceAll2 (CHR ''*'') (CHR ''/'') ''__''"
  have 1: "?r1 (u @ CHR ''/'' # CHR ''*'' # v) = ?r1 u @ ''__'' @ ?r1 v"
    by (rule replaceAll2_through_match) simp
  have 2: "?r2 (CHR ''_'' # ?r1 v) = CHR ''_'' # ?r2 (?r1 v)"
    by (rule replaceAll2_Cons_no_match) simp
  have 3: "?r2 (?r1 u @ CHR ''_'' # (CHR ''_'' # ?r1 v)) =
      ?r2 (?r1 u) @ CHR ''_'' # ?r2 (CHR ''_'' # ?r1 v)"
    by (rule replaceAll2_through_char) simp_all
  from 1 2 3 show ?thesis by (simp add: escapeForComment_def)
qed

lemma escapeForComment_close:
  assumes "u = [] \<or> last u \<noteq> CHR ''/''" and "v = [] \<or> hd v \<noteq> CHR ''*''"
  shows "escapeForComment (u @ ''*/'' @ v) = escapeForComment u @ ''__'' @ escapeForComment v"
proof -
  let ?r1 = "replaceAll2 (CHR ''/'') (CHR ''*'') ''__''"
  let ?r2 = "replaceAll2 (CHR ''*'') (CHR ''/'') ''__''"
  have 1: "?r1 (CHR ''/'' # v) = CHR ''/'' # ?r1 v"
    using assms(2) by (intro replaceAll2_Cons_no_match) simp
  have 2: "?r1 (u @ CHR ''*'' # (CHR ''/'' # v)) = ?r1 u @ CHR ''*'' # ?r1 (CHR ''/'' # v)"
    using assms(1) by (intro replaceAll2_through_char) simp_all
  have 3: "?r2 (?r1 u @ CHR ''*'' # CHR ''/'' # ?r1 v) = ?r2 (?r1 u) @ ''__'' @ ?r2 (?r1 v)"
    by (rule replaceAll2_through_match) simp
  from 1 2 3 show ?thesis by (simp add: escapeForComment_def)
qed

lemma escapeForComment_unchanged:
  assumes "\<not> sublist ''/*'' s" and "\<not> sublist ''*/'' s"
  shows "escapeForComment s = s"
  using assms
  by (simp add: escapeForComment_def replaceAll2_no_occurrence hasPair_sublist)

text \<open>
  C10, as the code has it. For every string, the result of \<^verbatim>\<open>escapeForComment\<close> contains
  neither \<^verbatim>\<open>/*\<close> nor \<^verbatim>\<open>*/\<close> as a substring, so it cannot open or close a block
  comment. Every occurrence of \<^verbatim>\<open>/*\<close> is replaced by \<^verbatim>\<open>__\<close>; every occurrence of
  \<^verbatim>\<open>*/\<close> that shares no character with a \<^verbatim>\<open>/*\<close> (no \<^verbatim>\<open>/\<close> stands before it and no
  \<^verbatim>\<open>*\<close> behind it) is replaced by \<^verbatim>\<open>__\<close>; and a string without an occurrence is
  returned as it is. These equations fix the result for every string.
\<close>

theorem escapeForComment_no_comment_delimiters:
  "\<not> sublist ''/*'' (escapeForComment str) \<and> \<not> sublist ''*/'' (escapeForComment str)
   \<and> escapeForComment (u @ ''/*'' @ v) = escapeForComment u @ ''__'' @ escapeForComment v
   \<and> ((u = [] \<or> last u \<noteq> CHR ''/'') \<and> (v = [] \<or> hd v \<noteq> CHR ''*'')
        \<longrightarrow> escapeForComment (u @ ''*/'' @ v) =
            escapeForComment u @ ''__'' @ escapeForComment v)
   \<and> (\<not> sublist ''/*'' str \<and> \<not> sublist ''*/'' str \<longrightarrow> escapeForComment str = str)"
  using escapeForComment_absent [of str] escapeForComment_open [of u v]
    escapeForComment_close [of u v] escapeForComment_unchanged [of str]
  by blast

theorem escapeForComment_no_comment_delimiters_witness:
  "escapeForComment ''a*/b'' = ''a__b''
   \<and> escapeForComment ''a/*b'' = ''a__b''
   \<and> escapeForComment ''ab'' = ''ab''
   \<and> \<not> sublist ''*/'' (escapeForComment ''a*/b'')"
proof -
  have n: "\<not> sublist ''/*'' ''a''" "\<not> sublist ''*/'' ''a''"
    "\<not> sublist ''/*'' ''b''" "\<not> sublist ''*/'' ''b''"
    "\<not> sublist ''/*'' ''ab''" "\<not> sublist ''*/'' ''ab''"
    by (simp_all add: hasPair_sublist [symmetric])
  have a: "escapeForComment ''a'' = ''a''"
    using escapeForComment_no_comment_delimiters [of "''a''"] n by blast
  have b: "escapeForComment ''b'' = ''b''"
    using escapeForComment_no_comment_delimiters [of "''b''"] n by blast
  have ab: "escapeForComment ''ab'' = ''ab''"
    using escapeForComment_no_comment_delimiters [of "''ab''"] n by blast
  have c: "escapeForComment (''a'' @ ''*/'' @ ''b'') =
      escapeForComment ''a'' @ ''__'' @ escapeForComment ''b''"
    using escapeForComment_no_comment_delimiters [of "[]" "''a''" "''b''"] by simp
  have d: "escapeForComment (''a'' @ ''/*'' @ ''b'') =
      escapeForComment ''a'' @ ''__'' @ escapeForComment ''b''"
    using escapeForComment_no_comment_delimiters [of "[]" "''a''" "''b''"] by blast
  have e: "\<not> sublist ''*/'' (escapeForComment ''a*/b'')"
    using escapeForComment_no_comment_delimiters [of "''a*/b''"] by blast
  from a b ab c d e show ?thesis by simp
qed

text \<open>The statement of the specification, that each occurrence is replaced by \<^verbatim>\<open>__\<close>,
  fails where a \<^verbatim>\<open>*/\<close> shares its \<^verbatim>\<open>/\<close> with a \<^verbatim>\<open>/*\<close>: in \<^verbatim>\<open>*/*\<close> the first
  replacement takes the \<^verbatim>\<open>/*\<close>, and the \<^verbatim>\<open>*\<close> of the \<^verbatim>\<open>*/\<close> stays.\<close>

theorem escapeForComment_overlapping_close_not_replaced:
  "sublist ''*/'' ''*/*''
   \<and> escapeForComment ''*/*'' = ''*__''
   \<and> escapeForComment ([] @ ''*/'' @ ''*'') \<noteq>
       escapeForComment [] @ ''__'' @ escapeForComment ''*''"
proof -
  have 1: "sublist ''*/'' ''*/*''"
    by (simp add: hasPair_sublist [symmetric])
  have 2: "escapeForComment ''*/*'' = ''*__''" "escapeForComment [] = []"
    "escapeForComment ''*'' = ''*''"
    by (simp_all add: escapeForComment_def)
  from 1 2 show ?thesis by simp
qed

section \<open>Heritage clauses (C1)\<close>

text \<open>
  C1, as the code has it. For a heritage type that the loop body reaches and whose resolved
  symbol is a class: no tag is added for it if the declaration is not a class declaration
  (an interface), or if the declaration is a class that has an \<^verbatim>\<open>extends\<close> clause and the
  current clause is an \<^verbatim>\<open>implements\<close> clause, or if the symbol is black-listed; in every
  other case exactly one tag is added, named \<^verbatim>\<open>extends\<close> and carrying the symbol's name,
  also for a type of an \<^verbatim>\<open>implements\<close> clause.
\<close>

theorem heritage_class_symbol_extends:
  assumes "resolvedHeritageSymbol mtt impl = Some alias"
    and "flagsClass alias"
  shows
    "(declarationKind decl \<noteq> ClassDeclaration \<or>
      (classHasSuperClass decl \<and> token heritage = ImplementsKeyword) \<or>
      isBlackListedSymbol mtt (expression impl) alias
      \<longrightarrow> fst (heritageType mtt decl (classHasSuperClass decl) heritage impl (docTags, st))
            = docTags)
     \<and> (declarationKind decl = ClassDeclaration \<and>
        \<not> (classHasSuperClass decl \<and> token heritage = ImplementsKeyword) \<and>
        \<not> isBlackListedSymbol mtt (expression impl) alias
      \<longrightarrow> fst (heritageType mtt decl (classHasSuperClass decl) heritage impl (docTags, st))
            = docTags @
              [(mkTag ''extends'')\<lparr>type :=
                  Some (symbolToString mtt (expression impl) alias True)\<rparr>])"
proof -
  obtain symb alias0 where
    s: "getSymbolAtLocation (checker mtt) (expression impl) = Some symb"
    and a0: "(if flagsTypeAlias symb then getDeclaredTypeOfSymbol (checker mtt) symb
              else Some symb) = Some alias0"
    and a: "alias = (if flagsAlias alias0 then getAliasedSymbol (checker mtt) alias0 else alias0)"
    using assms(1) by (auto simp: resolvedHeritageSymbol_def split: option.splits)
  have tok: "token heritage \<noteq> ExtendsKeyword \<longleftrightarrow> token heritage = ImplementsKeyword"
    by (cases "token heritage") simp_all
  have body: "heritageType mtt decl (classHasSuperClass decl) heritage impl (docTags, st) =
      (if isBlackListedSymbol mtt (expression impl) alias then (docTags, st)
       else if declarationKind decl \<noteq> ClassDeclaration then (docTags, st)
       else if classHasSuperClass decl \<and> token heritage = ImplementsKeyword then (docTags, st)
       else (docTags @ [(mkTag ''extends'')\<lparr>type :=
               Some (symbolToString mtt (expression impl) alias True)\<rparr>], st))"
    using assms(2) a
    by (simp add: heritageType_def s a0 Let_def tok)
  show ?thesis unfolding body by auto
qed

lemma exampleD_resolves:
  "resolvedHeritageSymbol (exampleTranslator False) \<lparr>expression = 2, expressionText = ''D''\<rparr>
     = Some (exampleClassSymbol ''D'')"
  "flagsClass (exampleClassSymbol ''D'')"
  by (simp_all add: resolvedHeritageSymbol_def exampleTranslator_def exampleChecker_def
      exampleClassSymbol_def)

theorem heritage_class_symbol_extends_witness:
  "fst (heritageType (exampleTranslator False) (exampleClass [exampleExtendsB, exampleImplementsD])
          (classHasSuperClass (exampleClass [exampleExtendsB, exampleImplementsD]))
          exampleImplementsD \<lparr>expression = 2, expressionText = ''D''\<rparr> ([], emptyState)) = []
   \<and> fst (heritageType (exampleTranslator False) (exampleClass [exampleImplementsD])
          (classHasSuperClass (exampleClass [exampleImplementsD]))
          exampleImplementsD \<lparr>expression = 2, expressionText = ''D''\<rparr> ([], emptyState))
     = [\<lparr>tagName = ''extends'', parameterName = None, type = Some ''D'', tagText = None\<rparr>]"
proof -
  let ?impl = "\<lparr>expression = 2, expressionText = ''D''\<rparr>"
  have k: "declarationKind (exampleClass cs) = ClassDeclaration" for cs
    by (simp add: exampleClass_def)
  have h1: "classHasSuperClass (exampleClass [exampleExtendsB, exampleImplementsD])"
    by (simp add: classHasSuperClass_def exampleClass_def exampleExtendsB_def)
  have h2: "\<not> classHasSuperClass (exampleClass [exampleImplementsD])"
    by (simp add: classHasSuperClass_def exampleClass_def exampleImplementsD_def)
  have t: "token exampleImplementsD = ImplementsKeyword"
    by (simp add: exampleImplementsD_def)
  have b: "\<not> isBlackListedSymbol (exampleTranslator False) (expression ?impl)
             (exampleClassSymbol ''D'')"
    by (simp add: exampleTranslator_def)
  have n: "symbolToString (exampleTranslator False) (expression ?impl)
             (exampleClassSymbol ''D'') True = ''D''"
    by (simp add: exampleTranslator_def exampleClassSymbol_def)
  from heritage_class_symbol_extends [OF exampleD_resolves,
      of "exampleClass [exampleExtendsB, exampleImplementsD]" exampleImplementsD "[]" emptyState]
    h1 t
  have 1: "fst (heritageType (exampleTranslator False)
          (exampleClass [exampleExtendsB, exampleImplementsD])
          (classHasSuperClass (exampleClass [exampleExtendsB, exampleImplementsD]))
          exampleImplementsD ?impl ([], emptyState)) = []"
    by blast
  from heritage_class_symbol_extends [OF exampleD_resolves,
      of "exampleClass [exampleImplementsD]" exampleImplementsD "[]" emptyState]
    h2 b k
  have 2: "fst (heritageType (exampleTranslator False) (exampleClass [exampleImplementsD])
          (classHasSuperClass (exampleClass [exampleImplementsD]))
          exampleImplementsD ?impl ([], emptyState))
     = [] @ [(mkTag ''extends'')\<lparr>type :=
          Some (symbolToString (exampleTranslator False) (expression ?impl)
             (exampleClassSymbol ''D'') True)\<rparr>]"
    by blast
  from 1 2 show ?thesis unfolding n by (simp add: mkTag_def)
qed

text \<open>The statement of the specification fails for an interface declaration: for
  \<^verbatim>\<open>interface I extends D {}\<close>, where \<^verbatim>\<open>D\<close> is a class, the declaration is not a class
  with an \<^verbatim>\<open>extends\<close> clause and the clause is not an \<^verbatim>\<open>implements\<close> clause, and yet no
  tag is added.\<close>

theorem interface_heritage_class_symbol_no_tag:
  "resolvedHeritageSymbol (exampleTranslator False) \<lparr>expression = 2, expressionText = ''D''\<rparr>
     = Some (exampleClassSymbol ''D'')
   \<and> flagsClass (exampleClassSymbol ''D'')
   \<and> declarationKind exampleInterface = InterfaceDeclaration
   \<and> maybeAddHeritageClauses [] (exampleTranslator False)
       (exampleInterface\<lparr>heritageClauses :=
          Some [\<lparr>token = ExtendsKeyword,
                 types = Some [\<lparr>expression = 2, expressionText = ''D''\<rparr>]\<rparr>]\<rparr>)
       emptyState = ([], emptyState)"
proof -
  have k: "declarationKind exampleInterface = InterfaceDeclaration"
    by (simp add: exampleInterface_def)
  have m: "maybeAddHeritageClauses [] (exampleTranslator False)
       (exampleInterface\<lparr>heritageClauses :=
          Some [\<lparr>token = ExtendsKeyword,
                 types = Some [\<lparr>expression = 2, expressionText = ''D''\<rparr>]\<rparr>]\<rparr>)
       emptyState = ([], emptyState)"
    by (simp add: maybeAddHeritageClauses_def heritageClauseStep_def
      heritageType_def exampleInterface_def exampleTranslator_def exampleChecker_def
      exampleClassSymbol_def isAmbient_def Let_def)
  from exampleD_resolves k m show ?thesis by blast
qed

text \<open>The loop body runs with \<open>classHasSuperClass decl\<close>: the whole function is the two
  loops over the clauses and their types.\<close>

lemma maybeAddHeritageClauses_loops:
  "maybeAddHeritageClauses docTags mtt decl st =
     (case heritageClauses decl of
        None \<Rightarrow> (docTags, st)
      | Some clauses \<Rightarrow>
          fold (heritageClauseStep mtt decl (classHasSuperClass decl)) clauses (docTags, st))"
  by (simp add: maybeAddHeritageClauses_def classHasSuperClass_def Let_def split: option.splits)

text \<open>Two classes through the whole of \<^verbatim>\<open>maybeAddHeritageClauses\<close>: the \<^verbatim>\<open>extends\<close>
  clause of a class that is not ambient is skipped before its types are looked at.\<close>

lemma maybeAddHeritageClauses_examples:
  "fst (maybeAddHeritageClauses [] (exampleTranslator False)
          (exampleClass [exampleExtendsB, exampleImplementsD]) emptyState) = []"
  "fst (maybeAddHeritageClauses [] (exampleTranslator False)
          (exampleClass [exampleImplementsD]) emptyState)
     = [\<lparr>tagName = ''extends'', parameterName = None, type = Some ''D'', tagText = None\<rparr>]"
  by (simp_all add: maybeAddHeritageClauses_def heritageClauseStep_def heritageType_def
      exampleClass_def exampleExtendsB_def exampleImplementsD_def exampleTranslator_def
      exampleChecker_def exampleClassSymbol_def isAmbient_def mkTag_def Let_def)

section \<open>Property declarations (C2)\<close>

text \<open>
  C2. For a property with a name, \<^verbatim>\<open>createClosurePropertyDeclaration\<close> makes the
  statement \<^verbatim>\<open>expr.name;\<close> whose comment holds the tags of the property's own comment, then
  the \<^verbatim>\<open>type\<close> tag, then \<^verbatim>\<open>export\<close> for an exporting decorator. The \<^verbatim>\<open>type\<close> tag carries
  \<^verbatim>\<open>?|undefined\<close> when the property has a question token and its translated type is
  exactly \<^verbatim>\<open>?\<close>, and the translated type unchanged in every other case.
\<close>

theorem property_type_tag_optional_unknown:
  assumes "propertyName prop = Some n" and "n \<noteq> []"
  shows "fst (createClosurePropertyDeclaration mtt e prop st) =
     ExpressionStatement
       [JSDocComment
          (getJSDoc mtt (nodeId prop) @
           [(mkTag ''type'')\<lparr>type := Some
               (if questionToken prop \<and> typeToClosure mtt (nodeId prop) = ''?''
                then ''?|undefined'' else typeToClosure mtt (nodeId prop))\<rparr>] @
           (if hasExportingDecorator mtt (nodeId prop) then [mkTag ''export''] else []))
          True]
       (PropertyAccessExpr e n)"
  using assms
  by (simp add: createClosurePropertyDeclaration_def addCommentOn_def Let_def)

theorem property_type_tag_optional_unknown_witness:
  "fst (createClosurePropertyDeclaration ((exampleTranslator False)\<lparr>translate := (\<lambda>n. ''?'')\<rparr>)
          (PropertyAccessExpr (IdentifierExpr ''I'') ''prototype'') exampleOptionalAny emptyState)
   = ExpressionStatement
       [JSDocComment
          [\<lparr>tagName = ''type'', parameterName = None, type = Some ''?|undefined'',
            tagText = None\<rparr>] True]
       (PropertyAccessExpr (PropertyAccessExpr (IdentifierExpr ''I'') ''prototype'') ''foo'')"
proof -
  let ?mtt = "(exampleTranslator False)\<lparr>translate := (\<lambda>n. ''?'')\<rparr>"
  have n: "propertyName exampleOptionalAny = Some ''foo''"
    by (simp add: propertyName_def exampleOptionalAny_def)
  have ne: "''foo'' \<noteq> []" by simp
  have t: "typeToClosure ?mtt (nodeId exampleOptionalAny) = ''?''"
    by (simp add: typeToClosure_def exampleTranslator_def)
  have q: "questionToken exampleOptionalAny"
    by (simp add: exampleOptionalAny_def)
  have j: "getJSDoc ?mtt (nodeId exampleOptionalAny) = []"
    "\<not> hasExportingDecorator ?mtt (nodeId exampleOptionalAny)"
    by (simp_all add: exampleTranslator_def)
  show ?thesis
    using property_type_tag_optional_unknown [OF n ne, of ?mtt
        "PropertyAccessExpr (IdentifierExpr ''I'') ''prototype''" emptyState]
    using t j q by (simp add: mkTag_def)
qed

section \<open>Interfaces (C5, C6)\<close>

lemma heritageType_appends:
  "\<exists>new st'. heritageType mtt decl c h impl acc = (fst acc @ new, st')"
  by (cases acc)
    (auto simp: heritageType_def Let_def split: option.splits)

lemma fold_appends:
  assumes "\<And>x acc. \<exists>new st'. f x acc = (fst acc @ new, st')"
  shows "\<exists>new st'. fold f xs acc = (fst acc @ new, st')"
proof (induction xs arbitrary: acc)
  case Nil
  show ?case by (cases acc) simp
next
  case (Cons x xs)
  from assms obtain new1 st1 where 1: "f x acc = (fst acc @ new1, st1)" by blast
  from Cons.IH obtain new2 st2 where
    2: "fold f xs (fst acc @ new1, st1) = (fst (fst acc @ new1, st1) @ new2, st2)" by blast
  show ?case using 1 2 by simp
qed

lemma heritageClauseStep_appends:
  "\<exists>new st'. heritageClauseStep mtt decl c h acc = (fst acc @ new, st')"
proof (cases "types h")
  case None
  then show ?thesis by (cases acc) (simp add: heritageClauseStep_def)
next
  case (Some impls)
  have "\<exists>new st'. fold (heritageType mtt decl c h) impls acc = (fst acc @ new, st')"
    by (rule fold_appends) (rule heritageType_appends)
  with Some show ?thesis by (cases acc) (auto simp: heritageClauseStep_def)
qed

lemma maybeAddHeritageClauses_appends:
  "\<exists>new st'. maybeAddHeritageClauses docTags mtt decl st = (docTags @ new, st')"
proof (cases "heritageClauses decl")
  case None
  then show ?thesis by (simp add: maybeAddHeritageClauses_def)
next
  case (Some clauses)
  have "\<exists>new st'. fold (heritageClauseStep mtt decl c) clauses (docTags, st)
          = (fst (docTags, st) @ new, st')" for c
    by (rule fold_appends) (rule heritageClauseStep_appends)
  with Some show ?thesis by (simp add: maybeAddHeritageClauses_def Let_def)
qed


lemma visitInterfaceDeclaration_type_only:
  assumes "name iface = Some (Identifier idNode txt)"
    and "getSymbolAtLocation (checker mtt) idNode = Some symb"
    and "\<not> flagsValue symb"
  shows "\<exists>tags st1.
      ''record'' \<in> set (map tagName tags) \<and>
      visitInterfaceDeclaration mtt iface st =
        (FunctionDeclarationStatement [JSDocComment tags False]
           (if hasModifierFlag iface {Export} then [Export] else []) txt [] []
         # (case fst (createMemberTypeDeclaration mtt iface st1) of
              Some memberDecl \<Rightarrow> [memberDecl] | None \<Rightarrow> []),
         snd (createMemberTypeDeclaration mtt iface st1))"
proof -
  let ?tags1 = "maybeAddTemplateClause (getJSDoc mtt (nodeId iface) @ [mkTag ''record'']) iface"
  have t1: "''record'' \<in> set (map tagName ?tags1)"
    by (simp add: maybeAddTemplateClause_def mkTag_def split: option.splits)
  obtain new st' where
    h: "maybeAddHeritageClauses ?tags1 mtt iface st = (?tags1 @ new, st')"
    using maybeAddHeritageClauses_appends by blast
  show ?thesis
  proof (cases "untyped (host mtt)")
    case True
    with assms t1 show ?thesis
      by (intro exI [of _ ?tags1] exI [of _ st])
        (simp add: visitInterfaceDeclaration_def addCommentOn_def Let_def split: option.splits)
  next
    case False
    with assms t1 h show ?thesis
      by (intro exI [of _ "?tags1 @ new"] exI [of _ st'])
        (simp add: visitInterfaceDeclaration_def addCommentOn_def Let_def split: option.splits)
  qed
qed

text \<open>
  C5, as the code has it. For an interface declaration whose name resolves to a symbol: if
  the symbol is not also a value, the first statement returned is a function declaration
  with the interface's name, no parameters and an empty body, whose leading comment
  includes a \<^verbatim>\<open>record\<close> tag. If the symbol is also a value, the only statement returned is
  a statement that is not emitted and carries the warning comment, so neither a function
  declaration nor a typedef is made; the debug warning reaches the host's \<^verbatim>\<open>logWarning\<close>
  when the host has one, and nothing is recorded when it has none.
\<close>

theorem visitInterfaceDeclaration_record_or_skip:
  assumes "name iface = Some (Identifier idNode txt)"
    and "getSymbolAtLocation (checker mtt) idNode = Some symb"
  shows
    "(\<not> flagsValue symb \<longrightarrow>
        (\<exists>cs ms rest.
           fst (visitInterfaceDeclaration mtt iface st) =
             FunctionDeclarationStatement cs ms txt [] [] # rest \<and>
           ''record'' \<in> set (leadingTagNames (FunctionDeclarationStatement cs ms txt [] []))))
     \<and> (flagsValue symb \<longrightarrow>
        fst (visitInterfaceDeclaration mtt iface st) =
          [createSingleLineComment
             ''WARNING: interface has both a type and a value, skipping emit''] \<and>
        snd (visitInterfaceDeclaration mtt iface st) =
          (if logWarning (host mtt) then
             st\<lparr>loggedWarnings := loggedWarnings st @
               [\<lparr>contextNode = nodeId iface,
                 messageText = ''type/symbol conflict for '' @ symbolName symb @
                   '', using {?} for now'',
                 category = Warning\<rparr>]\<rparr>
           else st))"
proof (intro conjI impI)
  assume nv: "\<not> flagsValue symb"
  from visitInterfaceDeclaration_type_only [OF assms nv, of st]
  obtain tags st1 where
    r: "''record'' \<in> set (map tagName tags)"
    and v: "visitInterfaceDeclaration mtt iface st =
        (FunctionDeclarationStatement [JSDocComment tags False]
           (if hasModifierFlag iface {Export} then [Export] else []) txt [] []
         # (case fst (createMemberTypeDeclaration mtt iface st1) of
              Some memberDecl \<Rightarrow> [memberDecl] | None \<Rightarrow> []),
         snd (createMemberTypeDeclaration mtt iface st1))"
    by blast
  show "\<exists>cs ms rest.
           fst (visitInterfaceDeclaration mtt iface st) =
             FunctionDeclarationStatement cs ms txt [] [] # rest \<and>
           ''record'' \<in> set (leadingTagNames (FunctionDeclarationStatement cs ms txt [] []))"
    unfolding v using r
    by (intro exI [of _ "[JSDocComment tags False]"]
        exI [of _ "if hasModifierFlag iface {Export} then [Export] else []"]
        exI [of _ "case fst (createMemberTypeDeclaration mtt iface st1) of
              Some memberDecl \<Rightarrow> [memberDecl] | None \<Rightarrow> []"]) simp
next
  assume "flagsValue symb"
  with assms show "fst (visitInterfaceDeclaration mtt iface st) =
      [createSingleLineComment ''WARNING: interface has both a type and a value, skipping emit'']"
    by (simp add: visitInterfaceDeclaration_def)
next
  assume "flagsValue symb"
  with assms show "snd (visitInterfaceDeclaration mtt iface st) =
          (if logWarning (host mtt) then
             st\<lparr>loggedWarnings := loggedWarnings st @
               [\<lparr>contextNode = nodeId iface,
                 messageText = ''type/symbol conflict for '' @ symbolName symb @
                   '', using {?} for now'',
                 category = Warning\<rparr>]\<rparr>
           else st)"
    by (simp add: visitInterfaceDeclaration_def mttDebugWarn_def debugWarn_def)
qed

lemma exampleInterface_symbol:
  "name exampleInterface = Some (Identifier 21 ''I'')"
  "getSymbolAtLocation (checker (exampleInterfaceTranslator v w)) 21 =
     Some ((exampleInterfaceSymbol ''I'')\<lparr>flagsValue := v\<rparr>)"
  "flagsValue ((exampleInterfaceSymbol ''I'')\<lparr>flagsValue := v\<rparr>) = v"
  "logWarning (host (exampleInterfaceTranslator v w)) = w"
  by (simp_all add: exampleInterface_def exampleInterfaceTranslator_def exampleTranslator_def
      exampleChecker_def exampleInterfaceSymbol_def)

theorem visitInterfaceDeclaration_record_or_skip_witness:
  "(\<exists>cs ms rest.
      fst (visitInterfaceDeclaration (exampleInterfaceTranslator False True) exampleInterface
             emptyState) = FunctionDeclarationStatement cs ms ''I'' [] [] # rest \<and>
      ''record'' \<in> set (leadingTagNames (FunctionDeclarationStatement cs ms ''I'' [] [])))
   \<and> fst (visitInterfaceDeclaration (exampleInterfaceTranslator True True) exampleInterface
             emptyState) =
       [createSingleLineComment ''WARNING: interface has both a type and a value, skipping emit'']
   \<and> loggedWarnings (snd (visitInterfaceDeclaration (exampleInterfaceTranslator True True)
        exampleInterface emptyState)) =
       [\<lparr>contextNode = 20,
         messageText = ''type/symbol conflict for I, using {?} for now'',
         category = Warning\<rparr>]"
proof -
  note a = visitInterfaceDeclaration_record_or_skip
    [OF exampleInterface_symbol(1) exampleInterface_symbol(2) [of False True], of emptyState]
  note b = visitInterfaceDeclaration_record_or_skip
    [OF exampleInterface_symbol(1) exampleInterface_symbol(2) [of True True], of emptyState]
  have n: "nodeId exampleInterface = 20"
    "symbolName ((exampleInterfaceSymbol ''I'')\<lparr>flagsValue := True\<rparr>) = ''I''"
    by (simp_all add: exampleInterface_def exampleInterfaceSymbol_def)
  from a have 1: "\<exists>cs ms rest.
      fst (visitInterfaceDeclaration (exampleInterfaceTranslator False True) exampleInterface
             emptyState) = FunctionDeclarationStatement cs ms ''I'' [] [] # rest \<and>
      ''record'' \<in> set (leadingTagNames (FunctionDeclarationStatement cs ms ''I'' [] []))"
    unfolding exampleInterface_symbol(3) by simp
  from b have 2: "fst (visitInterfaceDeclaration (exampleInterfaceTranslator True True)
        exampleInterface emptyState) =
       [createSingleLineComment ''WARNING: interface has both a type and a value, skipping emit'']"
    and 3: "snd (visitInterfaceDeclaration (exampleInterfaceTranslator True True)
        exampleInterface emptyState) =
          emptyState\<lparr>loggedWarnings := loggedWarnings emptyState @
               [\<lparr>contextNode = nodeId exampleInterface,
                 messageText = ''type/symbol conflict for '' @
                   symbolName ((exampleInterfaceSymbol ''I'')\<lparr>flagsValue := True\<rparr>) @
                   '', using {?} for now'',
                 category = Warning\<rparr>]\<rparr>"
    unfolding exampleInterface_symbol(3) exampleInterface_symbol(4) by simp_all
  from 1 2 3 show ?thesis unfolding n by (simp add: emptyState_def)
qed

text \<open>The statement of the specification fails for a host without \<^verbatim>\<open>logWarning\<close>: the interface
  \<^verbatim>\<open>I\<close> whose name is also a value is skipped, and no warning and no diagnostic is
  recorded.\<close>

theorem visitInterfaceDeclaration_no_warning_without_logWarning:
  "getSymbolAtLocation (checker (exampleInterfaceTranslator True False)) 21 =
     Some ((exampleInterfaceSymbol ''I'')\<lparr>flagsValue := True\<rparr>)
   \<and> \<not> logWarning (host (exampleInterfaceTranslator True False))
   \<and> visitInterfaceDeclaration (exampleInterfaceTranslator True False) exampleInterface
       emptyState =
       ([createSingleLineComment
           ''WARNING: interface has both a type and a value, skipping emit''],
        \<lparr>loggedWarnings = [], diagnostics = []\<rparr>)"
  by (simp add: visitInterfaceDeclaration_def exampleInterface_def
      exampleInterfaceTranslator_def exampleTranslator_def exampleChecker_def
      exampleInterfaceSymbol_def mttDebugWarn_def debugWarn_def emptyState_def)










section \<open>Variable statements (C3)\<close>

lemma declarationStatements_length:
  "length (declarationStatements mtt varStmt tags ds) = length ds"
  by (induction ds arbitrary: tags) (simp_all add: Let_def)

lemma declarationStatements_nth:
  "i < length ds \<Longrightarrow>
   leadingTags (declarationStatements mtt varStmt tags ds ! i) =
     (if i = 0 then (case tags of Some ts \<Rightarrow> ts | None \<Rightarrow> []) else []) @
     (if isIdentifier (ds ! i) \<and>
         \<not> (initializer (ds ! i) \<noteq> None \<and> isBlackListed mtt (nodeId (ds ! i)))
      then [(mkTag ''type'')\<lparr>type := Some (typeToClosure mtt (originalNode (ds ! i)))\<rparr>]
      else [])"
proof (induction ds arbitrary: i tags)
  case Nil
  then show ?case by simp
next
  case (Cons d ds)
  show ?case
  proof (cases i)
    case 0
    then show ?thesis
      by (auto simp: Let_def isIdentifier_def addCommentOn_def
          split: option.splits declarationName.splits)
  next
    case (Suc j)
    with Cons.prems have "j < length ds" by simp
    from Cons.IH [OF this, of None] Suc show ?thesis by (simp add: Let_def)
  qed
qed

lemma visitVariableStatement_nth:
  assumes "i < length (declarations varStmt)"
  shows "visitVariableStatement mtt varStmt !
           (i + (case syntheticLeadingComments varStmt of None \<Rightarrow> 0 | Some leading \<Rightarrow> 1))
         = declarationStatements mtt varStmt (Some (getJSDoc mtt (nodeId varStmt)))
             (declarations varStmt) ! i"
  by (cases "syntheticLeadingComments varStmt")
    (simp_all add: visitVariableStatement_def Let_def nth_append)

text \<open>
  C3. The statement made for the \<open>i\<close>-th declarator (it stands behind the holder of the
  plain comments when the statement has synthetic leading comments) carries the tags of
  the statement's own comment if it is the first, and behind them a \<^verbatim>\<open>type\<close> tag with the
  declarator's type exactly when its name is an identifier and it is not both initialized
  and black-listed. A declarator that is initialized and black-listed, and a destructuring
  declarator, get no tag from the transformer. A declarator with an identifier, no
  initializer and a black-listed type gets the tag \<^verbatim>\<open>@type {?}\<close>.
\<close>

theorem variable_declarator_type_tag:
  assumes "i < length (declarations varStmt)"
  shows
    "leadingTags (visitVariableStatement mtt varStmt !
        (i + (case syntheticLeadingComments varStmt of None \<Rightarrow> 0 | Some leading \<Rightarrow> 1))) =
       (if i = 0 then getJSDoc mtt (nodeId varStmt) else []) @
       (if isIdentifier (declarations varStmt ! i) \<and>
           \<not> (initializer (declarations varStmt ! i) \<noteq> None \<and>
              isBlackListed mtt (nodeId (declarations varStmt ! i)))
        then [(mkTag ''type'')\<lparr>type :=
                 Some (typeToClosure mtt (originalNode (declarations varStmt ! i)))\<rparr>]
        else [])
     \<and> (isIdentifier (declarations varStmt ! i) \<and>
        initializer (declarations varStmt ! i) = None \<and>
        isBlackListed mtt (originalNode (declarations varStmt ! i))
        \<longrightarrow> leadingTags (visitVariableStatement mtt varStmt !
              (i + (case syntheticLeadingComments varStmt of None \<Rightarrow> 0 | Some leading \<Rightarrow> 1))) =
            (if i = 0 then getJSDoc mtt (nodeId varStmt) else []) @
            [(mkTag ''type'')\<lparr>type := Some ''?''\<rparr>])"
proof -
  have t: "isBlackListed mtt n \<Longrightarrow> typeToClosure mtt n = ''?''" for n
    by (simp add: typeToClosure_def)
  show ?thesis
    unfolding visitVariableStatement_nth [OF assms] declarationStatements_nth [OF assms]
    by (auto simp: t)
qed

theorem variable_declarator_type_tag_witness:
  "map leadingTags (visitVariableStatement exampleBlacklistTranslator exampleVariableStatement) =
     [[\<lparr>tagName = ''type'', parameterName = None, type = Some ''?'', tagText = None\<rparr>], [], []]"
proof -
  let ?r = "visitVariableStatement exampleBlacklistTranslator exampleVariableStatement"
  have l: "length (declarations exampleVariableStatement) = 3"
    and s: "syntheticLeadingComments exampleVariableStatement = None"
    and n: "nodeId exampleVariableStatement = 40"
    and d: "declarations exampleVariableStatement ! 0 =
              exampleDeclaration 41 (Identifier 51 ''a'') None"
           "declarations exampleVariableStatement ! 1 =
              exampleDeclaration 42 (Identifier 52 ''b'') (Some 62)"
           "declarations exampleVariableStatement ! 2 =
              exampleDeclaration 43 (BindingPattern 53 ''{c}'') (Some 63)"
    by (simp_all add: exampleVariableStatement_def)
  have len: "length ?r = 3"
    by (simp add: visitVariableStatement_def s declarationStatements_length l)
  have f: "isIdentifier (exampleDeclaration k (Identifier m x) init)"
    "\<not> isIdentifier (exampleDeclaration k (BindingPattern m x) init)"
    "initializer (exampleDeclaration k nm init) = init"
    "nodeId (exampleDeclaration k nm init) = k"
    "originalNode (exampleDeclaration k nm init) = k"
    for k m x init nm
    by (simp_all add: isIdentifier_def exampleDeclaration_def)
  have b: "isBlackListed exampleBlacklistTranslator k = (k = 41 \<or> k = 42)"
    "getJSDoc exampleBlacklistTranslator k = []" for k
    by (simp_all add: exampleBlacklistTranslator_def exampleTranslator_def)
  have 0: "leadingTags (?r ! 0) = [(mkTag ''type'')\<lparr>type := Some ''?''\<rparr>]"
    using variable_declarator_type_tag [of 0 exampleVariableStatement exampleBlacklistTranslator]
    unfolding l s d by (simp add: typeToClosure_def b f)
  have 1: "leadingTags (?r ! 1) = []"
    using variable_declarator_type_tag [of 1 exampleVariableStatement exampleBlacklistTranslator]
    unfolding l s d by (simp add: typeToClosure_def b f)
  have 2: "leadingTags (?r ! 2) = []"
    using variable_declarator_type_tag [of 2 exampleVariableStatement exampleBlacklistTranslator]
    unfolding l s d by (simp add: typeToClosure_def b f)
  from len obtain x y z where r: "?r = [x, y, z]"
    by (auto simp: numeral_3_eq_3 length_Suc_conv)
  from 0 1 2 show ?thesis unfolding r by (simp add: mkTag_def)
qed

section \<open>Type aliases (C4)\<close>

text \<open>
  C4. For a type alias whose name has a symbol, \<^verbatim>\<open>visitTypeAliasDeclaration\<close> returns the
  single statement \<^verbatim>\<open>exports.<name>;\<close> with a comment that holds a \<^verbatim>\<open>typedef\<close> tag
  exactly when the alias has the export modifier, the symbol is not also a value and the
  module option is CommonJS; in every other case it returns no statement.
\<close>

theorem type_alias_typedef_iff:
  assumes "name typeAlias = Some (Identifier n txt)"
    and "getSymbolAtLocation (checker mtt) n = Some symb"
  shows
    "(hasModifierFlag typeAlias {Export} \<and> \<not> flagsValue symb \<and>
        moduleOption tsOptions = Some CommonJS
      \<longrightarrow> (\<exists>tags. visitTypeAliasDeclaration mtt tsOptions typeAlias =
               Inr [ExpressionStatement [JSDocComment tags True]
                      (PropertyAccessExpr (IdentifierExpr ''exports'') txt)] \<and>
             ''typedef'' \<in> set (map tagName tags)))
     \<and> (\<not> (hasModifierFlag typeAlias {Export} \<and> \<not> flagsValue symb \<and>
           moduleOption tsOptions = Some CommonJS)
      \<longrightarrow> visitTypeAliasDeclaration mtt tsOptions typeAlias = Inr [])"
  using assms
  by (auto simp: visitTypeAliasDeclaration_def mustGetSymbolAtLocation_def addCommentOn_def
      mkTag_def Let_def)

theorem type_alias_typedef_iff_witness:
  "visitTypeAliasDeclaration exampleTypeAliasTranslator \<lparr>moduleOption = Some CommonJS\<rparr>
     (exampleTypeAlias {Export}) =
     Inr [ExpressionStatement
            [JSDocComment [\<lparr>tagName = ''typedef'', parameterName = None, type = Some ''number'',
               tagText = None\<rparr>] True]
            (PropertyAccessExpr (IdentifierExpr ''exports'') ''T'')]
   \<and> visitTypeAliasDeclaration exampleTypeAliasTranslator \<lparr>moduleOption = Some ES2015\<rparr>
       (exampleTypeAlias {Export}) = Inr []
   \<and> visitTypeAliasDeclaration exampleTypeAliasTranslator \<lparr>moduleOption = Some CommonJS\<rparr>
       (exampleTypeAlias {}) = Inr []"
proof -
  have nm: "name (exampleTypeAlias ms) = Some (Identifier 71 ''T'')" for ms
    by (simp add: exampleTypeAlias_def)
  have sy: "getSymbolAtLocation (checker exampleTypeAliasTranslator) 71 =
      Some ((exampleInterfaceSymbol ''T'')\<lparr>flagsTypeAlias := True\<rparr>)"
    by (simp add: exampleTypeAliasTranslator_def exampleTranslator_def exampleChecker_def)
  have fl: "\<not> flagsValue ((exampleInterfaceSymbol ''T'')\<lparr>flagsTypeAlias := True\<rparr>)"
    by (simp add: exampleInterfaceSymbol_def)
  have ex: "hasModifierFlag (exampleTypeAlias {Export}) {Export}"
    "\<not> hasModifierFlag (exampleTypeAlias {}) {Export}"
    by (simp_all add: hasModifierFlag_def exampleTypeAlias_def)
  have 1: "visitTypeAliasDeclaration exampleTypeAliasTranslator \<lparr>moduleOption = Some CommonJS\<rparr>
     (exampleTypeAlias {Export}) =
     Inr [ExpressionStatement
            [JSDocComment [\<lparr>tagName = ''typedef'', parameterName = None, type = Some ''number'',
               tagText = None\<rparr>] True]
            (PropertyAccessExpr (IdentifierExpr ''exports'') ''T'')]"
    by (simp add: visitTypeAliasDeclaration_def mustGetSymbolAtLocation_def nm sy ex
        exampleInterfaceSymbol_def addCommentOn_def mkTag_def typeToClosure_def
        exampleTypeAliasTranslator_def exampleTranslator_def exampleTypeAlias_def
        hasModifierFlag_def Let_def)
  from type_alias_typedef_iff [OF nm sy, of "{Export}" "\<lparr>moduleOption = Some ES2015\<rparr>"]
  have 2: "visitTypeAliasDeclaration exampleTypeAliasTranslator \<lparr>moduleOption = Some ES2015\<rparr>
       (exampleTypeAlias {Export}) = Inr []"
    by simp
  from type_alias_typedef_iff [OF nm sy, of "{}" "\<lparr>moduleOption = Some CommonJS\<rparr>"] ex
  have 3: "visitTypeAliasDeclaration exampleTypeAliasTranslator \<lparr>moduleOption = Some CommonJS\<rparr>
       (exampleTypeAlias {}) = Inr []"
    by simp
  from type_alias_typedef_iff [OF nm sy, of "{Export}" "\<lparr>moduleOption = Some CommonJS\<rparr>"] ex fl
  have "\<exists>tags. visitTypeAliasDeclaration exampleTypeAliasTranslator
      \<lparr>moduleOption = Some CommonJS\<rparr> (exampleTypeAlias {Export}) =
               Inr [ExpressionStatement [JSDocComment tags True]
                      (PropertyAccessExpr (IdentifierExpr ''exports'') ''T'')]"
    by auto
  with 1 2 3 show ?thesis by simp
qed

section \<open>Declared modules in externs (C8)\<close>

text \<open>
  C8. On the module name \<^verbatim>\<open>a_b_c\<close> the code doubles the first underscore only: the key
  it emits under \<^verbatim>\<open>tsickle_declare_module\<close> is \<^verbatim>\<open>a__b_c\<close>, where the specification's rule (every
  underscore doubled) gives \<^verbatim>\<open>a__b__c\<close>. The name \<^verbatim>\<open>foo-bar/baz\<close> becomes
  \<^verbatim>\<open>foo_bar_baz\<close>, as the specification says.
\<close>

theorem declared_module_key_doubles_first_underscore_only:
  "mangledImportName ''a_b_c'' = ''a__b_c''
   \<and> specifiedImportName ''a_b_c'' = ''a__b__c''
   \<and> mangledImportName ''foo-bar/baz'' = ''foo_bar_baz''
   \<and> visitor exampleExternsContext (ModuleDeclaration 3 (StringLiteral 13 ''a_b_c'') None) []
        \<lparr>emitted = [], externsDiagnostics = []\<rparr> =
      Inr \<lparr>emitted =
             [''/** @const */'' @ [CHR 0x0A],
              ''var '', ''tsickle_declare_module'', '' = {}'', '';'' @ [CHR 0x0A],
              ''// Derived from: declare module '' @ [CHR 0x22] @ ''a_b_c'' @ [CHR 0x22]
                @ [CHR 0x0A],
              ''/** @const */'' @ [CHR 0x0A],
              ''tsickle_declare_module.a__b_c'', '' = {}'', '';'' @ [CHR 0x0A]],
            externsDiagnostics = []\<rparr>"
proof -
  have 1: "mangledImportName ''a_b_c'' = ''a__b_c''"
    by (simp add: mangledImportName_def isAsciiLetter_def)
  have 2: "specifiedImportName ''a_b_c'' = ''a__b__c''"
    by (simp add: specifiedImportName_def isAsciiLetter_def)
  have 3: "mangledImportName ''foo-bar/baz'' = ''foo_bar_baz''"
    by (simp add: mangledImportName_def isAsciiLetter_def)
  have 4: "isFirstDeclaration exampleExternsContext 3 13 = Inr True"
    by (simp add: isFirstDeclaration_def exampleExternsContext_def)
  have 5: "visitor exampleExternsContext (ModuleDeclaration 3 (StringLiteral 13 ''a_b_c'') None)
        [] \<lparr>emitted = [], externsDiagnostics = []\<rparr> =
      Inr \<lparr>emitted =
             [''/** @const */'' @ [CHR 0x0A],
              ''var '', ''tsickle_declare_module'', '' = {}'', '';'' @ [CHR 0x0A],
              ''// Derived from: declare module '' @ [CHR 0x22] @ ''a_b_c'' @ [CHR 0x22]
                @ [CHR 0x0A],
              ''/** @const */'' @ [CHR 0x0A],
              ''tsickle_declare_module.a__b_c'', '' = {}'', '';'' @ [CHR 0x0A]],
            externsDiagnostics = []\<rparr>"
    by (simp add: 1 4 writeExternsVariable_def emit_def Let_def)
  from 1 2 3 5 show ?thesis by blast
qed

section \<open>Overloaded functions in externs (C7)\<close>

lemma writeExternsFunction_emitted:
  "writeExternsFunction f params namespace st =
     st\<lparr>emitted := emitted st @
       [if namespace = [] then
          ''function '' @ f @ ''('' @ join '', '' params @ '') {}'' @ [CHR 0x0A]
        else
          join ''.'' namespace @ ''.'' @ f @ '' = function('' @ join '', '' params @ '') {};''
          @ [CHR 0x0A]]\<rparr>"
  by (simp add: writeExternsFunction_def emit_def Let_def)

lemma visitFunctionDeclaration_overload:
  assumes "declaresOverload ctx f (first # others) d"
  shows "visitFunctionDeclaration ctx d namespace st =
     (if fnNodeId d \<noteq> fnNodeId first then Inr st
      else Inr (writeExternsFunction f (snd (mergedFunctionTypeJSDoc (first # others))) namespace
             (st\<lparr>emitted := emitted st @
                [[CHR 0x0A],
                 jsdocToString ctx (fst (mergedFunctionTypeJSDoc (first # others)))]\<rparr>)))"
  using assms
  by (auto simp: declaresOverload_def visitFunctionDeclaration_def emitFunctionType_def
      emit_def Let_def split: option.splits)

lemma visitStatements_later_overloads:
  assumes "list_all (declaresOverload ctx f (first # others)) ds"
    and "fnNodeId first \<notin> set (map fnNodeId ds)"
  shows "visitStatements ctx (map FunctionDeclarationNode ds) namespace st = Inr st"
  using assms
proof (induction ds)
  case Nil
  show ?case by simp
next
  case (Cons d ds)
  from Cons.prems have d: "declaresOverload ctx f (first # others) d"
    and n: "fnNodeId d \<noteq> fnNodeId first" by auto
  have "visitor ctx (FunctionDeclarationNode d) namespace st = Inr st"
    using visitFunctionDeclaration_overload [OF d] n by simp
  moreover from Cons have
    "visitStatements ctx (map FunctionDeclarationNode ds) namespace st = Inr st" by simp
  ultimately show ?case by simp
qed

text \<open>
  C7. Let \<open>first # others\<close> be the function declarations of the symbol of a function \<open>f\<close>,
  all different nodes. Visiting one of them emits something only if it is \<open>first\<close>.
  Visiting all of them, in their order, emits exactly three strings: a line break, one
  comment and one function stub for \<open>f\<close>. The tags of the comment are one \<^verbatim>\<open>param\<close> tag for
  each parameter position, whose type is the union of the overloads' types at the position,
  and a \<^verbatim>\<open>return\<close> tag whose type is the union of the overloads' return types.
\<close>

theorem overloaded_function_one_merged_stub:
  assumes "list_all (declaresOverload ctx f (first # others)) (first # others)"
    and "distinct (map fnNodeId (first # others))"
  shows
    "(\<forall>d \<in> set (first # others). d \<noteq> first \<longrightarrow>
        visitor ctx (FunctionDeclarationNode d) namespace st = Inr st)
     \<and> visitStatements ctx (map FunctionDeclarationNode (first # others)) namespace st =
         Inr (st\<lparr>emitted := emitted st @
           [[CHR 0x0A],
            jsdocToString ctx
              (map (\<lambda>i.
                  \<lparr>tagName = ''param'',
                   parameterName =
                     (case parametersAt (first # others) i of
                        [] \<Rightarrow> None | p # ps \<Rightarrow> Some (fst p)),
                   type = Some (unionType (map snd (parametersAt (first # others) i))),
                   tagText = None\<rparr>) [0 ..< maxArity (first # others)] @
               [\<lparr>tagName = ''return'', parameterName = None,
                 type = Some (unionType (map fnReturnType (first # others))),
                 tagText = None\<rparr>]),
            if namespace = [] then
              ''function '' @ f @ ''('' @
                join '', '' (snd (mergedFunctionTypeJSDoc (first # others))) @ '') {}''
                @ [CHR 0x0A]
            else
              join ''.'' namespace @ ''.'' @ f @ '' = function('' @
                join '', '' (snd (mergedFunctionTypeJSDoc (first # others))) @ '') {};''
                @ [CHR 0x0A]]\<rparr>)"
proof (intro conjI ballI impI)
  fix d
  assume d: "d \<in> set (first # others)" and ne: "d \<noteq> first"
  from d ne have m: "d \<in> set others" by simp
  with assms(2) have "fnNodeId d \<noteq> fnNodeId first" by (auto simp: image_iff)
  moreover from assms(1) m have "declaresOverload ctx f (first # others) d"
    by (simp add: list_all_iff)
  ultimately show "visitor ctx (FunctionDeclarationNode d) namespace st = Inr st"
    using visitFunctionDeclaration_overload by simp
next
  let ?tags = "fst (mergedFunctionTypeJSDoc (first # others))"
  let ?st1 = "writeExternsFunction f (snd (mergedFunctionTypeJSDoc (first # others))) namespace
             (st\<lparr>emitted := emitted st @ [[CHR 0x0A], jsdocToString ctx ?tags]\<rparr>)"
  from assms(1) have f: "declaresOverload ctx f (first # others) first"
    and o: "list_all (declaresOverload ctx f (first # others)) others" by simp_all
  from assms(2) have n: "fnNodeId first \<notin> set (map fnNodeId others)" by simp
  have 1: "visitor ctx (FunctionDeclarationNode first) namespace st = Inr ?st1"
    using visitFunctionDeclaration_overload [OF f] by simp
  have 2: "visitStatements ctx (map FunctionDeclarationNode others) namespace ?st1 = Inr ?st1"
    using o n by (rule visitStatements_later_overloads)
  have t: "?tags =
      map (\<lambda>i.
          \<lparr>tagName = ''param'',
           parameterName =
             (case parametersAt (first # others) i of [] \<Rightarrow> None | p # ps \<Rightarrow> Some (fst p)),
           type = Some (unionType (map snd (parametersAt (first # others) i))),
           tagText = None\<rparr>) [0 ..< maxArity (first # others)] @
       [\<lparr>tagName = ''return'', parameterName = None,
         type = Some (unionType (map fnReturnType (first # others))),
         tagText = None\<rparr>]"
    by (simp add: mergedFunctionTypeJSDoc_def mergedParamTag_def mergedReturnTag_def)
  have "visitStatements ctx (map FunctionDeclarationNode (first # others)) namespace st
      = Inr ?st1"
    using 1 2 by simp
  then show "visitStatements ctx (map FunctionDeclarationNode (first # others)) namespace st =
         Inr (st\<lparr>emitted := emitted st @
           [[CHR 0x0A],
            jsdocToString ctx
              (map (\<lambda>i.
                  \<lparr>tagName = ''param'',
                   parameterName =
                     (case parametersAt (first # others) i of
                        [] \<Rightarrow> None | p # ps \<Rightarrow> Some (fst p)),
                   type = Some (unionType (map snd (parametersAt (first # others) i))),
                   tagText = None\<rparr>) [0 ..< maxArity (first # others)] @
               [\<lparr>tagName = ''return'', parameterName = None,
                 type = Some (unionType (map fnReturnType (first # others))),
                 tagText = None\<rparr>]),
            if namespace = [] then
              ''function '' @ f @ ''('' @
                join '', '' (snd (mergedFunctionTypeJSDoc (first # others))) @ '') {}''
                @ [CHR 0x0A]
            else
              join ''.'' namespace @ ''.'' @ f @ '' = function('' @
                join '', '' (snd (mergedFunctionTypeJSDoc (first # others))) @ '') {};''
                @ [CHR 0x0A]]\<rparr>)"
    unfolding writeExternsFunction_emitted t by simp
qed

lemma exampleOverloads_merged:
  "mergedFunctionTypeJSDoc [exampleOverload1, exampleOverload2] =
     ([\<lparr>tagName = ''param'', parameterName = Some ''x'', type = Some ''(number|string)'',
        tagText = None\<rparr>,
       \<lparr>tagName = ''return'', parameterName = None, type = Some ''(void|number)'',
        tagText = None\<rparr>],
      [''x''])"
  by (simp add: mergedFunctionTypeJSDoc_def mergedParamTag_def mergedReturnTag_def
      maxArity_def parametersAt_def unionType_def unionMembers_def
      exampleOverload1_def exampleOverload2_def)

theorem overloaded_function_one_merged_stub_witness:
  "visitor exampleExternsContext (FunctionDeclarationNode exampleOverload2) []
      \<lparr>emitted = [], externsDiagnostics = []\<rparr> = Inr \<lparr>emitted = [], externsDiagnostics = []\<rparr>
   \<and> visitStatements exampleExternsContext
       [FunctionDeclarationNode exampleOverload1, FunctionDeclarationNode exampleOverload2] []
       \<lparr>emitted = [], externsDiagnostics = []\<rparr> =
     Inr \<lparr>emitted =
            [[CHR 0x0A],
             ''/**'' @ [CHR 0x0A] @
             '' * @param {(number|string)} x'' @ [CHR 0x0A] @
             '' * @return {(void|number)}'' @ [CHR 0x0A] @
             '' */'' @ [CHR 0x0A],
             ''function f(x) {}'' @ [CHR 0x0A]],
           externsDiagnostics = []\<rparr>"
proof -
  let ?st = "\<lparr>emitted = [], externsDiagnostics = []\<rparr>"
  have a: "list_all (declaresOverload exampleExternsContext ''f''
             (exampleOverload1 # [exampleOverload2])) (exampleOverload1 # [exampleOverload2])"
    by (simp add: declaresOverload_def exampleExternsContext_def functionDeclarationsOf_def
        exampleOverload1_def exampleOverload2_def)
  have b: "distinct (map fnNodeId (exampleOverload1 # [exampleOverload2]))"
    by (simp add: exampleOverload1_def exampleOverload2_def)
  have ne: "exampleOverload2 \<noteq> exampleOverload1"
    by (simp add: exampleOverload1_def exampleOverload2_def)
  note th = overloaded_function_one_merged_stub [OF a b, of "[]" ?st]
  from th ne have 1: "visitor exampleExternsContext (FunctionDeclarationNode exampleOverload2) []
      ?st = Inr ?st"
    by simp
  have p: "parametersAt [exampleOverload1, exampleOverload2] 0 = [(''x'', ''number''), (''x'', ''string'')]"
    "maxArity [exampleOverload1, exampleOverload2] = 1"
    "fnReturnType exampleOverload1 = ''void''" "fnReturnType exampleOverload2 = ''number''"
    by (simp_all add: parametersAt_def maxArity_def exampleOverload1_def exampleOverload2_def)
  have u: "unionType [''number'', ''string''] = ''(number|string)''"
    "unionType [''void'', ''number''] = ''(void|number)''"
    by (simp_all add: unionType_def unionMembers_def)
  have j: "jsdocToString exampleExternsContext = exampleToString"
    by (simp add: exampleExternsContext_def)
  from th have 2: "visitStatements exampleExternsContext
       [FunctionDeclarationNode exampleOverload1, FunctionDeclarationNode exampleOverload2] []
       ?st =
     Inr \<lparr>emitted =
            [[CHR 0x0A],
             ''/**'' @ [CHR 0x0A] @
             '' * @param {(number|string)} x'' @ [CHR 0x0A] @
             '' * @return {(void|number)}'' @ [CHR 0x0A] @
             '' */'' @ [CHR 0x0A],
             ''function f(x) {}'' @ [CHR 0x0A]],
           externsDiagnostics = []\<rparr>"
    by (simp add: exampleOverloads_merged p u j exampleToString_def exampleTagLine_def)
  from 1 2 show ?thesis by simp
qed

end
